theory Spec2Isabelle
  imports Complex_Main
begin

section \<open>Data model\<close>

text \<open>
  The tools of \<^verbatim>\<open>src/tools/data_tools.py\<close> work on a pandas DataFrame read from a
  CSV or JSON file. A frame is an ordered list of labelled columns; a column (a pandas
  Series) has one dtype for all its cells and marks a missing cell (NaN, None, NaT) by
  \<open>None\<close>. Three dtypes are modelled: \<open>Numeric\<close> (int64 and float64), \<open>Object\<close>
  (text) and \<open>Datetime\<close> (datetime64, nanoseconds since the epoch), the last being the
  dtype of the helper column the validator adds. A number is the real number that
  the integer or the float64 denotes. The text of a cell is a Python \<^verbatim>\<open>str\<close>: a list
  of Unicode code points. Column labels, file paths and messages are strings.
\<close>

type_synonym timestamp = int

type_synonym pystr = "nat list"

datatype series =
    Numeric "real option list"
  | Object "pystr option list"
  | Datetime "timestamp option list"

type_synonym dataframe = "(string \<times> series) list"

datatype cell = NA | Num real | Str pystr | Stamp timestamp

text \<open>The code points of a string literal.\<close>

definition ustr :: "string \<Rightarrow> pystr" where
  "ustr s = map of_char s"

text \<open>
  The value of a float64 that is not a finite number: the z-scores of scipy can be
  NaN or infinite.
\<close>

datatype f64 = NaN | Finite real | PosInf | NegInf

text \<open>Exceptions of the Python run time that the tools catch.\<close>

datatype exn =
    OSError string
  | ParseError string
  | TypeError
  | KeyError string
  | AttributeError
  | ZeroDivisionError

text \<open>
  What a tool returns instead of its JSON document: a fixed message, or the message
  prefix of its \<^verbatim>\<open>except Exception as e\<close> handler with the exception caught.
\<close>

datatype failure = Message string | Caught string exn

text \<open>Inside a \<^verbatim>\<open>try\<close> block an exception ends the block: what follows is not run.\<close>

definition and_then :: "exn + 'a \<Rightarrow> ('a \<Rightarrow> exn + 'b) \<Rightarrow> exn + 'b" where
  "and_then r f = (case r of Inl ex \<Rightarrow> Inl ex | Inr v \<Rightarrow> f v)"

text \<open>A document as \<^verbatim>\<open>json.load\<close> returns it; an object keeps the order of its keys.\<close>

datatype json =
    JNull
  | JBool bool
  | JNum real
  | JStr string
  | JArr "json list"
  | JObj "(string \<times> json) list"

text \<open>
  The file system and the library calls whose results the tools only pass on are the
  environment: each reader maps a path to what it parses or to the exception it
  raises; \<open>load_json\<close> is \<^verbatim>\<open>open\<close> followed by \<^verbatim>\<open>json.load\<close>;
  \<open>memory_usage\<close> is \<^verbatim>\<open>df.memory_usage(deep=True).sum()\<close> in bytes;
  \<open>to_datetime\<close> is \<^verbatim>\<open>pd.to_datetime(..., errors='coerce')\<close>, which yields NaT
  (\<open>None\<close>) where it cannot parse; \<open>str_num\<close> and \<open>str_stamp\<close> are the renderings
  of \<^verbatim>\<open>astype(str)\<close>; \<open>isdecimal\<close> says which code points are decimal digits
  in Python's Unicode tables, the class \<^verbatim>\<open>\d\<close> of a \<^verbatim>\<open>str\<close> pattern;
  \<open>scipy_zscore\<close> is the array that \<^verbatim>\<open>scipy.stats.zscore\<close> computes in float64 from
  an array whose values are not all equal.
\<close>

record env =
  read_csv :: "string \<Rightarrow> exn + dataframe"
  read_json :: "string \<Rightarrow> exn + dataframe"
  memory_usage :: "dataframe \<Rightarrow> real"
  path_exists :: "string \<Rightarrow> bool"
  load_json :: "string \<Rightarrow> exn + json"
  to_datetime :: "series \<Rightarrow> timestamp option list"
  str_num :: "real \<Rightarrow> pystr"
  str_stamp :: "timestamp \<Rightarrow> pystr"
  isdecimal :: "nat \<Rightarrow> bool"
  scipy_zscore :: "real list \<Rightarrow> f64 list"

definition endswith :: "string \<Rightarrow> string \<Rightarrow> bool" where
  "endswith s suf \<longleftrightarrow> length suf \<le> length s \<and> drop (length s - length suf) s = suf"

text \<open>
  \<^verbatim>\<open>pd.read_csv(file_path) if file_path.endswith('.csv') else pd.read_json(file_path)\<close>,
  the first statement of the profiler, the validator and the anomaly detector.
\<close>

definition read_frame :: "env \<Rightarrow> string \<Rightarrow> exn + dataframe" where
  "read_frame e file_path =
     (if endswith file_path ''.csv'' then read_csv e file_path else read_json e file_path)"

text \<open>\<^verbatim>\<open>df.columns\<close>\<close>

definition df_columns :: "dataframe \<Rightarrow> string list" where
  "df_columns df = map fst df"

text \<open>\<^verbatim>\<open>len(df)\<close>: the number of rows.\<close>

fun series_len :: "series \<Rightarrow> nat" where
  "series_len (Numeric vs) = length vs"
| "series_len (Object vs) = length vs"
| "series_len (Datetime vs) = length vs"

fun len_df :: "dataframe \<Rightarrow> nat" where
  "len_df [] = 0"
| "len_df ((c, s) # df) = series_len s"

text \<open>
  A frame as pandas builds it: the labels are distinct and all columns have the
  length of the index.
\<close>

definition wf_df :: "dataframe \<Rightarrow> bool" where
  "wf_df df \<longleftrightarrow> distinct (df_columns df) \<and> (\<forall>(c, s) \<in> set df. series_len s = len_df df)"

text \<open>\<^verbatim>\<open>df[col]\<close> for a label of the frame.\<close>

definition df_get :: "dataframe \<Rightarrow> string \<Rightarrow> series option" where
  "df_get df col = map_of df col"

fun dropna :: "'a option list \<Rightarrow> 'a list" where
  "dropna [] = []"
| "dropna (None # vs) = dropna vs"
| "dropna (Some v # vs) = v # dropna vs"

subsection \<open>Float arithmetic\<close>

text \<open>To the nearest integer, a tie going to the even neighbour.\<close>

definition round_half_even :: "real \<Rightarrow> int" where
  "round_half_even x =
     (let f = \<lfloor>x\<rfloor>; d = x - of_int f
      in if d < 1 / 2 then f else if 1 / 2 < d then f + 1 else if even f then f else f + 1)"

text \<open>
  The float64 nearest to a real number, a tie going to the even significand: the
  result of every arithmetic operation of Python and numpy on floats is the exact
  result rounded this way. A float64 has 53 significant bits and its exponent is at
  least \<open>-1022\<close>; magnitudes of \<open>2\<^sup>1\<^sup>0\<^sup>2\<^sup>4\<close> and more, which overflow, do not occur
  in the quotients and sums below.
\<close>

definition fl :: "real \<Rightarrow> real" where
  "fl x =
     (if x = 0 then 0
      else let e = max \<lfloor>log 2 \<bar>x\<bar>\<rfloor> (- 1022); ulp = 2 powi (e - 52)
           in of_int (round_half_even (x / ulp)) * ulp)"

text \<open>
  Python's \<^verbatim>\<open>round(x, ndigits)\<close> of a float: the exact value of \<open>x\<close> rounded to the
  nearest multiple of \<open>10\<^sup>-\<^sup>n\<close>, a tie going to the even neighbour, and then the
  float64 nearest to that decimal, which prints as the decimal.
\<close>

definition py_round :: "real \<Rightarrow> nat \<Rightarrow> real" where
  "py_round x ndigits = fl (of_int (round_half_even (x * 10 ^ ndigits)) / 10 ^ ndigits)"

text \<open>
  \<^verbatim>\<open>round(x, ndigits)\<close> of a numpy float is numpy's: multiply by \<open>10\<^sup>n\<close>, round
  to the nearest integer, divide by \<open>10\<^sup>n\<close>, each in float64.
\<close>

definition np_round :: "real \<Rightarrow> nat \<Rightarrow> real" where
  "np_round x ndigits = fl (of_int (round_half_even (fl (x * 10 ^ ndigits))) / 10 ^ ndigits)"

fun cells :: "series \<Rightarrow> cell list" where
  "cells (Numeric vs) = map (\<lambda>v. case v of None \<Rightarrow> NA | Some x \<Rightarrow> Num x) vs"
| "cells (Object vs) = map (\<lambda>v. case v of None \<Rightarrow> NA | Some x \<Rightarrow> Str x) vs"
| "cells (Datetime vs) = map (\<lambda>v. case v of None \<Rightarrow> NA | Some x \<Rightarrow> Stamp x) vs"

section \<open>Dataset loader\<close>

text \<open>
  \<^verbatim>\<open>DataLoaderTool._run\<close>. The key \<^verbatim>\<open>file\<close> of the returned document is the field
  \<open>file_name\<close>.
\<close>

record load_info =
  file_name :: string
  rows :: nat
  columns :: nat
  column_names :: "string list"
  sample_rows :: "(string \<times> cell) list list"
  memory_usage_mb :: real

text \<open>\<^verbatim>\<open>os.path.basename\<close>: what follows the last slash.\<close>

definition basename :: "string \<Rightarrow> string" where
  "basename path = rev (takeWhile (\<lambda>c. c \<noteq> CHR ''/'') (rev path))"

text \<open>
  \<^verbatim>\<open>df.head(3).to_dict(orient='records')\<close>. In a frame of pandas every column has
  the length of the index (\<open>wf_df\<close>), so each row has a cell in each column.
\<close>

definition to_records :: "dataframe \<Rightarrow> nat \<Rightarrow> (string \<times> cell) list list" where
  "to_records df n =
     map (\<lambda>i. map (\<lambda>(c, s). (c, cells s ! i)) df) [0..<min n (len_df df)]"

definition load_info_of :: "env \<Rightarrow> string \<Rightarrow> dataframe \<Rightarrow> load_info" where
  "load_info_of e file_path df =
     \<lparr>file_name = basename file_path,
      rows = len_df df,
      columns = length (df_columns df),
      column_names = df_columns df,
      sample_rows = to_records df 3,
      memory_usage_mb = np_round (fl (fl (memory_usage e df / 1024) / 1024)) 2\<rparr>"

definition DataLoaderTool_run :: "env \<Rightarrow> string \<Rightarrow> failure + load_info" where
  "DataLoaderTool_run e file_path =
     (if endswith file_path ''.csv'' then
        (case read_csv e file_path of
           Inl ex \<Rightarrow> Inl (Caught ''Error loading file: '' ex)
         | Inr df \<Rightarrow> Inr (load_info_of e file_path df))
      else if endswith file_path ''.json'' then
        (case read_json e file_path of
           Inl ex \<Rightarrow> Inl (Caught ''Error loading file: '' ex)
         | Inr df \<Rightarrow> Inr (load_info_of e file_path df))
      else Inl (Message ''Error: Unsupported file format. Use CSV or JSON.''))"

section \<open>CDE configuration loader\<close>

text \<open>
  \<^verbatim>\<open>CDELoaderTool._run\<close>. \<^verbatim>\<open>config.get(key, default)\<close> needs a dict (anything else
  has no \<^verbatim>\<open>get\<close>: AttributeError); \<^verbatim>\<open>len\<close> and iteration need a list, a dict or a
  string; \<^verbatim>\<open>cde["field"]\<close> needs a dict that has the key.
\<close>

record cde_summary =
  dataset :: json
  description :: json
  cde_count :: nat
  cde_fields :: "json list"
  thresholds :: json
  cde_details :: json

fun dict_get :: "json \<Rightarrow> string \<Rightarrow> json \<Rightarrow> exn + json" where
  "dict_get (JObj kvs) key dflt = Inr (case map_of kvs key of None \<Rightarrow> dflt | Some v \<Rightarrow> v)"
| "dict_get _ key dflt = Inl AttributeError"

fun py_len :: "json \<Rightarrow> exn + nat" where
  "py_len (JArr xs) = Inr (length xs)"
| "py_len (JObj kvs) = Inr (length kvs)"
| "py_len (JStr s) = Inr (length s)"
| "py_len _ = Inl TypeError"

fun py_iter :: "json \<Rightarrow> exn + json list" where
  "py_iter (JArr xs) = Inr xs"
| "py_iter (JObj kvs) = Inr (map (\<lambda>(k, v). JStr k) kvs)"
| "py_iter (JStr s) = Inr (map (\<lambda>c. JStr [c]) s)"
| "py_iter _ = Inl TypeError"

fun getitem_field :: "json \<Rightarrow> exn + json" where
  "getitem_field (JObj kvs) =
     (case map_of kvs ''field'' of None \<Rightarrow> Inl (KeyError ''field'') | Some v \<Rightarrow> Inr v)"
| "getitem_field _ = Inl TypeError"

text \<open>\<^verbatim>\<open>[cde["field"] for cde in ...]\<close>: the first entry that raises ends the loop.\<close>

fun field_list :: "json list \<Rightarrow> exn + json list" where
  "field_list [] = Inr []"
| "field_list (cde # rest) =
     (case getitem_field cde of
        Inl ex \<Rightarrow> Inl ex
      | Inr f \<Rightarrow> (case field_list rest of Inl ex \<Rightarrow> Inl ex | Inr fs \<Rightarrow> Inr (f # fs)))"

definition summarize_config :: "json \<Rightarrow> exn + cde_summary" where
  "summarize_config config =
     and_then (dict_get config ''dataset'' JNull) (\<lambda>ds.
     and_then (dict_get config ''description'' JNull) (\<lambda>de.
     and_then (dict_get config ''critical_data_elements'' (JArr [])) (\<lambda>cdes.
     and_then (py_len cdes) (\<lambda>n.
     and_then (py_iter cdes) (\<lambda>entries.
     and_then (field_list entries) (\<lambda>fs.
     and_then (dict_get config ''quality_thresholds'' (JObj [])) (\<lambda>th.
       Inr \<lparr>dataset = ds, description = de, cde_count = n, cde_fields = fs,
            thresholds = th, cde_details = cdes\<rparr>)))))))"

definition CDELoaderTool_run :: "env \<Rightarrow> string \<Rightarrow> failure + cde_summary" where
  "CDELoaderTool_run e config_path =
     (case load_json e config_path of
        Inl ex \<Rightarrow> Inl (Caught ''Error loading CDE config: '' ex)
      | Inr config \<Rightarrow>
          (case summarize_config config of
             Inl ex \<Rightarrow> Inl (Caught ''Error loading CDE config: '' ex)
           | Inr summary \<Rightarrow> Inr summary))"

section \<open>Profiler\<close>

text \<open>
  \<^verbatim>\<open>ProfilerTool._run\<close>. The dtype name and the statistics that depend on the dtype
  (minimum, maximum, mean, deviation, string lengths, samples) are left out of the
  column profile: they do not enter the figures below.
\<close>

text \<open>\<^verbatim>\<open>CDE_PATTERNS\<close> of \<^verbatim>\<open>src/config/settings.py\<close>. No tool reads it.\<close>

definition CDE_PATTERNS :: "string list" where
  "CDE_PATTERNS =
     [''customer_id'', ''account_id'', ''transaction_id'',
      ''ssn'', ''tax_id'', ''ein'',
      ''email'', ''phone'', ''address'',
      ''balance'', ''amount'', ''revenue'',
      ''date_of_birth'', ''dob'',
      ''name'', ''first_name'', ''last_name'']"

text \<open>\<^verbatim>\<open>str.split(',')\<close>: the pieces between the separators, at least one.\<close>

fun split_on :: "char \<Rightarrow> string \<Rightarrow> string list" where
  "split_on sep [] = [[]]"
| "split_on sep (c # cs) =
     (if c = sep then [] # split_on sep cs
      else (case split_on sep cs of
              [] \<Rightarrow> [[c]]
            | piece # pieces \<Rightarrow> (c # piece) # pieces))"

text \<open>
  \<^verbatim>\<open>str.strip()\<close> removes the white space of \<^verbatim>\<open>str.isspace\<close> at both ends. A
  character of a string is a code point below 256; these twelve are the white space
  among them.
\<close>

definition isspace :: "char \<Rightarrow> bool" where
  "isspace c \<longleftrightarrow>
     c \<in> set [CHR '' '', CHR 0x09, CHR 0x0A, CHR 0x0B, CHR 0x0C, CHR 0x0D,
              CHR 0x1C, CHR 0x1D, CHR 0x1E, CHR 0x1F, CHR 0x85, CHR 0xA0]"

definition strip :: "string \<Rightarrow> string" where
  "strip s = rev (dropWhile isspace (rev (dropWhile isspace s)))"

text \<open>
  \<^verbatim>\<open>[f.strip() for f in cde_fields.split(',')] if cde_fields else []\<close>, the argument
  \<^verbatim>\<open>cde_fields\<close> being \<open>fields_arg\<close> here.
\<close>

definition parse_cde_fields :: "string \<Rightarrow> string list" where
  "parse_cde_fields fields_arg =
     (if fields_arg \<noteq> [] then map strip (split_on CHR '','' fields_arg) else [])"

fun notna_count :: "series \<Rightarrow> nat" where
  "notna_count (Numeric vs) = length (dropna vs)"
| "notna_count (Object vs) = length (dropna vs)"
| "notna_count (Datetime vs) = length (dropna vs)"

definition isna_count :: "series \<Rightarrow> nat" where
  "isna_count s = series_len s - notna_count s"

text \<open>\<^verbatim>\<open>Series.nunique()\<close>: the distinct values, the missing ones not counted.\<close>

fun nunique :: "series \<Rightarrow> nat" where
  "nunique (Numeric vs) = length (remdups (dropna vs))"
| "nunique (Object vs) = length (remdups (dropna vs))"
| "nunique (Datetime vs) = length (remdups (dropna vs))"

text \<open>
  \<open>completeness\<close> is \<^verbatim>\<open>round(non_null / total, 4)\<close> with \<^verbatim>\<open>non_null\<close> a numpy
  integer, so the quotient and the rounding are numpy's: on a frame without rows the
  quotient is \<open>0 / 0\<close>, which numpy evaluates to NaN with a warning, not an
  exception; NaN is \<open>None\<close>. \<open>uniqueness\<close> has its
  denominator guarded in the source. The key \<^verbatim>\<open>column\<close> of a column profile is the
  field \<open>profile_column\<close>.
\<close>

record column_profile =
  profile_column :: string
  is_cde :: bool
  total_rows :: nat
  non_null_count :: nat
  null_count :: nat
  completeness :: "real option"
  unique_count :: nat
  uniqueness :: real
  duplicate_count :: int

definition profile_col :: "string list \<Rightarrow> string \<Rightarrow> series \<Rightarrow> column_profile" where
  "profile_col cde_list col col_data =
     (let total = series_len col_data;
          non_null = notna_count col_data;
          nulls = isna_count col_data;
          uniq = nunique col_data
      in \<lparr>profile_column = col,
          is_cde = (col \<in> set cde_list),
          total_rows = total,
          non_null_count = non_null,
          null_count = nulls,
          completeness =
            (if total = 0 then None
             else Some (np_round (fl (of_nat non_null / of_nat total)) 4)),
          unique_count = uniq,
          uniqueness =
            (if 0 < non_null then np_round (fl (of_nat uniq / of_nat non_null)) 4 else 0),
          duplicate_count = int non_null - int uniq\<rparr>)"

record profile_summary =
  total_columns :: nat
  cde_columns :: nat
  overall_completeness :: "real option"
  cde_completeness :: "real option option"
  columns_with_nulls :: nat
  columns_with_duplicates :: nat
  column_profiles :: "column_profile list"

text \<open>
  \<^verbatim>\<open>sum(...)\<close> of numpy floats: from the left, each addition in float64, NaN as soon
  as one summand is.
\<close>

fun nan_sum :: "real option \<Rightarrow> real option list \<Rightarrow> real option" where
  "nan_sum acc [] = acc"
| "nan_sum acc (v # vs) =
     nan_sum (case acc of
                None \<Rightarrow> None
              | Some a \<Rightarrow> (case v of None \<Rightarrow> None | Some b \<Rightarrow> Some (fl (a + b)))) vs"

definition mean_completeness :: "column_profile list \<Rightarrow> real option" where
  "mean_completeness ps =
     (case nan_sum (Some 0) (map completeness ps) of
        None \<Rightarrow> None
      | Some t \<Rightarrow> Some (np_round (fl (t / of_nat (length ps))) 4))"

text \<open>
  The summary divides by \<^verbatim>\<open>len(profile)\<close>; on a frame without columns the sum is the
  Python integer \<open>0\<close> and the division raises.
\<close>

definition profile_frame :: "dataframe \<Rightarrow> string list \<Rightarrow> exn + profile_summary" where
  "profile_frame df cde_list =
     (let profile =
            List.map_filter (\<lambda>col. map_option (profile_col cde_list col) (df_get df col))
              (df_columns df);
          cde_profiles = filter is_cde profile
      in if profile = [] then Inl ZeroDivisionError
         else Inr \<lparr>total_columns = length profile,
                   cde_columns = length cde_profiles,
                   overall_completeness = mean_completeness profile,
                   cde_completeness =
                     (if cde_profiles \<noteq> [] then Some (mean_completeness cde_profiles)
                      else None),
                   columns_with_nulls = length (filter (\<lambda>p. 0 < null_count p) profile),
                   columns_with_duplicates =
                     length (filter (\<lambda>p. 0 < duplicate_count p) profile),
                   column_profiles = profile\<rparr>)"

definition ProfilerTool_run :: "env \<Rightarrow> string \<Rightarrow> string \<Rightarrow> failure + profile_summary" where
  "ProfilerTool_run e file_path fields_arg =
     (case read_frame e file_path of
        Inl ex \<Rightarrow> Inl (Caught ''Error profiling data: '' ex)
      | Inr df \<Rightarrow>
          (case profile_frame df (parse_cde_fields fields_arg) of
             Inl ex \<Rightarrow> Inl (Caught ''Error profiling data: '' ex)
           | Inr summary \<Rightarrow> Inr summary))"

section \<open>Validator\<close>

text \<open>\<^verbatim>\<open>ValidatorTool._run\<close>\<close>

record issue =
  field :: string
  rule :: string
  severity :: string
  invalid_count :: nat
  sample_invalid :: "cell list option"
  message :: string

record validation_result =
  total_records :: nat
  total_issues :: nat
  critical_issues :: nat
  high_issues :: nat
  medium_issues :: nat
  validity_score :: real
  issues :: "issue list"

text \<open>The decimal digits of a count, as an f-string prints it.\<close>

fun str_nat :: "nat \<Rightarrow> string" where
  "str_nat n =
     (if n < 10 then [''0123456789'' ! n]
      else str_nat (n div 10) @ [''0123456789'' ! (n mod 10)])"

declare str_nat.simps [simp del]

subsection \<open>The two patterns\<close>

text \<open>
  \<^verbatim>\<open>^[a-zA-Z0-9_.+-]+@[a-zA-Z0-9-]+\.[a-zA-Z0-9-.]+$\<close> and \<^verbatim>\<open>^\d{3}-\d{3}-\d{4}$\<close>,
  applied with \<^verbatim>\<open>str.match\<close> to a list of code points. \<^verbatim>\<open>$\<close> matches at the end of
  the text and before a line feed that ends it. The at sign is in no class and the
  dot is not in the class of the domain label, so the longest run of each class is
  the only candidate and no backtracking is needed. The letters and digits of the
  first pattern are the ASCII ranges it names; \<^verbatim>\<open>\d\<close> in the second is any Unicode
  decimal digit, as the environment tells.
\<close>

definition is_alnum :: "nat \<Rightarrow> bool" where
  "is_alnum c \<longleftrightarrow> (48 \<le> c \<and> c \<le> 57) \<or> (65 \<le> c \<and> c \<le> 90) \<or> (97 \<le> c \<and> c \<le> 122)"

definition is_local :: "nat \<Rightarrow> bool" where
  "is_local c \<longleftrightarrow> is_alnum c \<or> c \<in> set (ustr ''_.+-'')"

definition is_label :: "nat \<Rightarrow> bool" where
  "is_label c \<longleftrightarrow> is_alnum c \<or> c = of_char CHR ''-''"

definition is_tail :: "nat \<Rightarrow> bool" where
  "is_tail c \<longleftrightarrow> is_alnum c \<or> c \<in> set (ustr ''-.'')"

definition before_final_newline :: "pystr \<Rightarrow> pystr" where
  "before_final_newline s = (if s \<noteq> [] \<and> last s = 10 then butlast s else s)"

definition email_match :: "pystr \<Rightarrow> bool" where
  "email_match s =
     (let t = before_final_newline s;
          local_part = takeWhile is_local t
      in local_part \<noteq> [] \<and>
         (case dropWhile is_local t of
            [] \<Rightarrow> False
          | c # after_at \<Rightarrow>
              c = of_char CHR ''@'' \<and> takeWhile is_label after_at \<noteq> [] \<and>
              (case dropWhile is_label after_at of
                 [] \<Rightarrow> False
               | d # rest \<Rightarrow> d = of_char CHR ''.'' \<and> rest \<noteq> [] \<and> list_all is_tail rest)))"

definition phone_match :: "env \<Rightarrow> pystr \<Rightarrow> bool" where
  "phone_match e s =
     (let t = before_final_newline s
      in length t = 12 \<and>
         list_all (isdecimal e) (take 3 t) \<and> t ! 3 = of_char CHR ''-'' \<and>
         list_all (isdecimal e) (take 3 (drop 4 t)) \<and> t ! 7 = of_char CHR ''-'' \<and>
         list_all (isdecimal e) (drop 8 t))"

subsection \<open>Masks and selections\<close>

text \<open>
  \<^verbatim>\<open>df[col].notna() & ~df[col].astype(str).str.match(pattern)\<close> for the two
  patterns above. \<^verbatim>\<open>astype(str)\<close> of a number or of a timestamp has no at sign and
  no group of three digits followed by a hyphen at its start, so a present cell of
  such a column matches neither pattern.
\<close>

fun invalid_format :: "(pystr \<Rightarrow> bool) \<Rightarrow> series \<Rightarrow> bool list" where
  "invalid_format matches (Object vs) =
     map (\<lambda>v. case v of None \<Rightarrow> False | Some x \<Rightarrow> \<not> matches x) vs"
| "invalid_format matches (Numeric vs) = map (\<lambda>v. v \<noteq> None) vs"
| "invalid_format matches (Datetime vs) = map (\<lambda>v. v \<noteq> None) vs"

definition count_true :: "bool list \<Rightarrow> nat" where
  "count_true msk = length (filter (\<lambda>b. b) msk)"

text \<open>The rows of a column that a mask keeps.\<close>

definition select :: "bool list \<Rightarrow> 'a list \<Rightarrow> 'a list" where
  "select msk xs = map snd (filter fst (zip msk xs))"

text \<open>
  \<^verbatim>\<open>df[col] < k\<close> and \<^verbatim>\<open>df[col] > k\<close>. A missing cell compares false. On a text
  column the comparison of a string with a number raises; on a datetime column
  pandas refuses the comparison.
\<close>

fun lt_scalar :: "series \<Rightarrow> real \<Rightarrow> exn + bool list" where
  "lt_scalar (Numeric vs) k = Inr (map (\<lambda>v. case v of None \<Rightarrow> False | Some x \<Rightarrow> x < k) vs)"
| "lt_scalar (Object vs) k = (if dropna vs = [] then Inr (map (\<lambda>v. False) vs) else Inl TypeError)"
| "lt_scalar (Datetime vs) k = Inl TypeError"

fun gt_scalar :: "series \<Rightarrow> real \<Rightarrow> exn + bool list" where
  "gt_scalar (Numeric vs) k = Inr (map (\<lambda>v. case v of None \<Rightarrow> False | Some x \<Rightarrow> k < x) vs)"
| "gt_scalar (Object vs) k = (if dropna vs = [] then Inr (map (\<lambda>v. False) vs) else Inl TypeError)"
| "gt_scalar (Datetime vs) k = Inl TypeError"

fun astype_str :: "env \<Rightarrow> series \<Rightarrow> pystr list" where
  "astype_str e (Numeric vs) =
     map (\<lambda>v. case v of None \<Rightarrow> ustr ''nan'' | Some x \<Rightarrow> str_num e x) vs"
| "astype_str e (Object vs) =
     map (\<lambda>v. case v of None \<Rightarrow> ustr ''nan'' | Some x \<Rightarrow> x) vs"
| "astype_str e (Datetime vs) =
     map (\<lambda>v. case v of None \<Rightarrow> ustr ''NaT'' | Some x \<Rightarrow> str_stamp e x) vs"

text \<open>\<^verbatim>\<open>df[name] = s\<close>: replaces the column of that label, or appends a new one.\<close>

definition assign :: "dataframe \<Rightarrow> string \<Rightarrow> series \<Rightarrow> dataframe" where
  "assign df name s =
     (if name \<in> set (df_columns df)
      then map (\<lambda>(c, old). if c = name then (c, s) else (c, old)) df
      else df @ [(name, s)])"

text \<open>The calendar day of a timestamp, in days since the epoch, as \<^verbatim>\<open>.dt.date\<close>.\<close>

definition date_of :: "timestamp \<Rightarrow> int" where
  "date_of ts = ts div 86400000000000"

subsection \<open>The fixed rules\<close>

definition email_issues :: "dataframe \<Rightarrow> issue list" where
  "email_issues df =
     (case df_get df ''email'' of
        None \<Rightarrow> []
      | Some s \<Rightarrow>
          let msk = invalid_format email_match s; n = count_true msk
          in if 0 < n then
               [\<lparr>field = ''email'', rule = ''format_validation'', severity = ''HIGH'',
                 invalid_count = n,
                 sample_invalid = Some (take 3 (select msk (cells s))),
                 message = str_nat n @ '' records have invalid email format''\<rparr>]
             else [])"

definition phone_issues :: "env \<Rightarrow> dataframe \<Rightarrow> issue list" where
  "phone_issues e df =
     (case df_get df ''phone'' of
        None \<Rightarrow> []
      | Some s \<Rightarrow>
          let msk = invalid_format (phone_match e) s; n = count_true msk
          in if 0 < n then
               [\<lparr>field = ''phone'', rule = ''format_validation'', severity = ''MEDIUM'',
                 invalid_count = n,
                 sample_invalid = Some (take 3 (select msk (cells s))),
                 message = str_nat n @ '' records have invalid phone format''\<rparr>]
             else [])"

text \<open>
  The date rule reads the clock (\<^verbatim>\<open>datetime.now().date()\<close>, here the argument
  \<open>today\<close> in days since the epoch) and stores the parsed dates in the frame as a new
  column \<^verbatim>\<open>dob_parsed\<close>: it returns the frame changed.
\<close>

definition dob_check :: "env \<Rightarrow> int \<Rightarrow> dataframe \<Rightarrow> dataframe \<times> issue list" where
  "dob_check e today df =
     (case df_get df ''date_of_birth'' of
        None \<Rightarrow> (df, [])
      | Some s \<Rightarrow>
          let parsed = to_datetime e s;
              df' = assign df ''dob_parsed'' (Datetime parsed);
              msk = map (\<lambda>t. case t of None \<Rightarrow> False | Some ts \<Rightarrow> today < date_of ts) parsed;
              n = count_true msk
          in (df',
              if 0 < n then
                [\<lparr>field = ''date_of_birth'', rule = ''future_date'', severity = ''CRITICAL'',
                  invalid_count = n,
                  sample_invalid = Some (map Str (take 3 (select msk (astype_str e s)))),
                  message = str_nat n @ '' records have future date of birth''\<rparr>]
              else []))"

definition balance_issues :: "dataframe \<Rightarrow> exn + issue list" where
  "balance_issues df =
     (case df_get df ''account_balance'' of
        None \<Rightarrow> Inr []
      | Some s \<Rightarrow>
          (case lt_scalar s 0 of
             Inl ex \<Rightarrow> Inl ex
           | Inr msk \<Rightarrow>
               let n = count_true msk
               in Inr (if 0 < n then
                    [\<lparr>field = ''account_balance'', rule = ''negative_value'', severity = ''HIGH'',
                      invalid_count = n,
                      sample_invalid = Some (take 3 (select msk (cells s))),
                      message = str_nat n @ '' records have negative account balance''\<rparr>]
                  else [])))"

definition credit_issues :: "dataframe \<Rightarrow> exn + issue list" where
  "credit_issues df =
     (case df_get df ''credit_score'' of
        None \<Rightarrow> Inr []
      | Some s \<Rightarrow>
          (case lt_scalar s 300 of
             Inl ex \<Rightarrow> Inl ex
           | Inr low \<Rightarrow>
               (case gt_scalar s 850 of
                  Inl ex \<Rightarrow> Inl ex
                | Inr high \<Rightarrow>
                    let msk = map (\<lambda>(a, b). a \<or> b) (zip low high); n = count_true msk
                    in Inr (if 0 < n then
                         [\<lparr>field = ''credit_score'', rule = ''range_validation'',
                           severity = ''HIGH'', invalid_count = n,
                           sample_invalid = Some (take 3 (select msk (cells s))),
                           message = str_nat n @
                             '' records have credit score outside valid range (300-850)''\<rparr>]
                       else []))))"

subsection \<open>The rules of the configuration\<close>

text \<open>
  \<^verbatim>\<open>cde_rules[cde["field"]] = cde\<close> for each entry: a Python dict keeps the place of a
  key that is stored again. A list or a dict as key is unhashable and raises. A key
  that is not a string (a number, a boolean, null) is stored by Python but is never
  the label of a column, so both loops below skip it; it is not kept here.
\<close>

fun dict_set :: "string \<Rightarrow> json \<Rightarrow> (string \<times> json) list \<Rightarrow> (string \<times> json) list" where
  "dict_set k v [] = [(k, v)]"
| "dict_set k v ((k', v') # kvs) =
     (if k' = k then (k, v) # kvs else (k', v') # dict_set k v kvs)"

fun store_rules :: "json list \<Rightarrow> (string \<times> json) list \<Rightarrow> exn + (string \<times> json) list" where
  "store_rules [] cde_rules = Inr cde_rules"
| "store_rules (cde # rest) cde_rules =
     (case getitem_field cde of
        Inl ex \<Rightarrow> Inl ex
      | Inr (JStr k) \<Rightarrow> store_rules rest (dict_set k cde cde_rules)
      | Inr (JArr xs) \<Rightarrow> Inl TypeError
      | Inr (JObj kvs) \<Rightarrow> Inl TypeError
      | Inr other \<Rightarrow> store_rules rest cde_rules)"

definition build_cde_rules :: "json \<Rightarrow> exn + (string \<times> json) list" where
  "build_cde_rules config =
     and_then (dict_get config ''critical_data_elements'' (JArr [])) (\<lambda>cdes.
     and_then (py_iter cdes) (\<lambda>entries.
       store_rules entries []))"

text \<open>
  \<^verbatim>\<open>rules.get(key) == False\<close> and \<^verbatim>\<open>rules.get(key) == True\<close>: in Python the numbers
  \<open>0\<close> and \<open>1\<close> are equal to the two booleans.
\<close>

fun py_eq_bool :: "json \<Rightarrow> bool \<Rightarrow> bool" where
  "py_eq_bool (JBool a) b = (a = b)"
| "py_eq_bool (JNum x) b = (x = (if b then 1 else 0))"
| "py_eq_bool _ b = False"

definition rule_flag :: "json \<Rightarrow> string \<Rightarrow> bool \<Rightarrow> bool" where
  "rule_flag rules key b =
     (case dict_get rules key JNull of Inl ex \<Rightarrow> False | Inr v \<Rightarrow> py_eq_bool v b)"

definition null_issue :: "dataframe \<Rightarrow> string \<times> json \<Rightarrow> issue list" where
  "null_issue df = (\<lambda>(fld, rules).
     (case df_get df fld of
        None \<Rightarrow> []
      | Some s \<Rightarrow>
          if rule_flag rules ''nullable'' False then
            let n = isna_count s
            in if 0 < n then
                 [\<lparr>field = fld, rule = ''cde_not_nullable'', severity = ''CRITICAL'',
                   invalid_count = n, sample_invalid = None,
                   message = ''CDE field '' @ [CHR 0x27] @ fld @ [CHR 0x27] @ '' has '' @ str_nat n @
                     '' null values but is marked as non-nullable''\<rparr>]
               else []
          else []))"

text \<open>\<^verbatim>\<open>df[field].dropna().duplicated().sum()\<close>: the occurrences after the first.\<close>

definition dup_count :: "series \<Rightarrow> nat" where
  "dup_count s = notna_count s - nunique s"

definition unique_issue :: "dataframe \<Rightarrow> string \<times> json \<Rightarrow> issue list" where
  "unique_issue df = (\<lambda>(fld, rules).
     (case df_get df fld of
        None \<Rightarrow> []
      | Some s \<Rightarrow>
          if rule_flag rules ''unique'' True then
            let n = dup_count s
            in if 0 < n then
                 [\<lparr>field = fld, rule = ''cde_uniqueness'', severity = ''CRITICAL'',
                   invalid_count = n, sample_invalid = None,
                   message = ''CDE field '' @ [CHR 0x27] @ fld @ [CHR 0x27] @ '' has '' @ str_nat n @
                     '' duplicate values but is marked as unique''\<rparr>]
               else []
          else []))"

subsection \<open>The run\<close>

text \<open>
  The score divides two Python integers, which gives the float64 nearest to the
  quotient, subtracts it from one and rounds the difference with Python's
  \<^verbatim>\<open>round\<close>; a frame without a cell raises ZeroDivisionError.
  \<^verbatim>\<open>len(df.columns)\<close> is read after the date rule has run.
\<close>

definition count_severity :: "string \<Rightarrow> issue list \<Rightarrow> nat" where
  "count_severity sev found = length (filter (\<lambda>i. severity i = sev) found)"

definition validate ::
  "env \<Rightarrow> int \<Rightarrow> dataframe \<Rightarrow> (string \<times> json) list \<Rightarrow> exn + validation_result" where
  "validate e today df0 cde_rules =
     (let format_found = email_issues df0 @ phone_issues e df0;
          (df, date_found) = dob_check e today df0
      in and_then (balance_issues df) (\<lambda>balance_found.
         and_then (credit_issues df) (\<lambda>credit_found.
           let found = format_found @ date_found @ balance_found @ credit_found @
                       concat (map (null_issue df) cde_rules) @
                       concat (map (unique_issue df) cde_rules);
               n_cells = len_df df * length (df_columns df)
           in if n_cells = 0 then Inl ZeroDivisionError
              else Inr \<lparr>total_records = len_df df,
                        total_issues = length found,
                        critical_issues = count_severity ''CRITICAL'' found,
                        high_issues = count_severity ''HIGH'' found,
                        medium_issues = count_severity ''MEDIUM'' found,
                        validity_score =
                          py_round
                            (fl (1 - fl (of_nat (sum_list (map invalid_count found)) /
                                         of_nat n_cells))) 4,
                        issues = found\<rparr>)))"

definition load_cde_rules :: "env \<Rightarrow> string \<Rightarrow> exn + (string \<times> json) list" where
  "load_cde_rules e cde_config_path =
     (if cde_config_path \<noteq> [] \<and> path_exists e cde_config_path then
        (case load_json e cde_config_path of
           Inl ex \<Rightarrow> Inl ex
         | Inr config \<Rightarrow> build_cde_rules config)
      else Inr [])"

definition ValidatorTool_run ::
  "env \<Rightarrow> int \<Rightarrow> string \<Rightarrow> string \<Rightarrow> failure + validation_result" where
  "ValidatorTool_run e today file_path cde_config_path =
     (case read_frame e file_path of
        Inl ex \<Rightarrow> Inl (Caught ''Error validating data: '' ex)
      | Inr df \<Rightarrow>
          (case load_cde_rules e cde_config_path of
             Inl ex \<Rightarrow> Inl (Caught ''Error validating data: '' ex)
           | Inr cde_rules \<Rightarrow>
               (case validate e today df cde_rules of
                  Inl ex \<Rightarrow> Inl (Caught ''Error validating data: '' ex)
                | Inr result \<Rightarrow> Inr result)))"

section \<open>Anomaly detector\<close>

text \<open>
  \<^verbatim>\<open>AnomalyDetectorTool._run\<close>. \<^verbatim>\<open>stats.zscore(col_data)\<close> is scipy's, with its
  default \<^verbatim>\<open>ddof=0\<close>: it subtracts the mean and divides by the standard deviation
  whose variance has denominator \<open>n\<close>, in float64. scipy sets the z-scores of an
  array whose values are all equal to NaN; for any other array they are what the
  environment returns. No comparison holds of NaN, so \<^verbatim>\<open>abs(nan) > 3\<close> is false.
\<close>

definition is_constant :: "real list \<Rightarrow> bool" where
  "is_constant xs \<longleftrightarrow> list_all (\<lambda>x. x = hd xs) xs"

definition zscore :: "env \<Rightarrow> real list \<Rightarrow> f64 list" where
  "zscore e xs = (if is_constant xs then map (\<lambda>x. NaN) xs else scipy_zscore e xs)"

text \<open>\<^verbatim>\<open>abs(z) > 3\<close>\<close>

fun exceeds_three :: "f64 \<Rightarrow> bool" where
  "exceeds_three NaN = False"
| "exceeds_three (Finite v) = (3 < \<bar>v\<bar>)"
| "exceeds_three PosInf = True"
| "exceeds_three NegInf = True"

definition zscore_outliers :: "env \<Rightarrow> real list \<Rightarrow> nat" where
  "zscore_outliers e xs = length (filter exceeds_three (zscore e xs))"

text \<open>
  \<^verbatim>\<open>Series.quantile(q)\<close> with pandas' default linear interpolation between the two
  order statistics around position \<open>(n - 1) q\<close>. The quantiles and the two fences are
  taken over the reals.
\<close>

definition quantile :: "real list \<Rightarrow> real \<Rightarrow> real" where
  "quantile xs q =
     (let s = sort xs; h = (of_nat (length xs) - 1) * q;
          lo = nat \<lfloor>h\<rfloor>; hi = nat \<lceil>h\<rceil>
      in s ! lo + (h - of_int \<lfloor>h\<rfloor>) * (s ! hi - s ! lo))"

definition iqr_outliers :: "real list \<Rightarrow> nat" where
  "iqr_outliers xs =
     (let q1 = quantile xs (1 / 4); q3 = quantile xs (3 / 4); iqr = q3 - q1
      in length (filter (\<lambda>x. x < q1 - 3 / 2 * iqr \<or> q3 + 3 / 2 * iqr < x) xs))"

text \<open>
  A report carries the column and the two counts. Its summary statistics (mean,
  deviation, quartiles and their range, each rounded to two decimals) are left out:
  they do not enter the counts.
\<close>

record anomaly_report =
  column :: string
  outliers_zscore :: nat
  outliers_iqr :: nat

record anomaly_result =
  numeric_columns_analyzed :: nat
  columns_with_anomalies :: nat
  anomalies :: "anomaly_report list"

text \<open>\<^verbatim>\<open>df.select_dtypes(include=['number']).columns\<close>\<close>

fun is_number_dtype :: "series \<Rightarrow> bool" where
  "is_number_dtype (Numeric vs) = True"
| "is_number_dtype (Object vs) = False"
| "is_number_dtype (Datetime vs) = False"

definition numeric_cols :: "dataframe \<Rightarrow> string list" where
  "numeric_cols df = map fst (filter (\<lambda>(c, s). is_number_dtype s) df)"

text \<open>The body of the loop for one column: \<open>None\<close> when nothing is appended.\<close>

definition analyze_col :: "env \<Rightarrow> string \<Rightarrow> real list \<Rightarrow> anomaly_report option" where
  "analyze_col e col col_data =
     (if length col_data < 3 then None
      else
        let oz = zscore_outliers e col_data;
            oi = iqr_outliers col_data
        in if 0 < oz \<or> 0 < oi then
             Some \<lparr>column = col, outliers_zscore = oz, outliers_iqr = oi\<rparr>
           else None)"

definition col_anomaly :: "env \<Rightarrow> dataframe \<Rightarrow> string \<Rightarrow> anomaly_report option" where
  "col_anomaly e df col =
     (case df_get df col of
        Some (Numeric vs) \<Rightarrow> analyze_col e col (dropna vs)
      | _ \<Rightarrow> None)"

definition detect_anomalies :: "env \<Rightarrow> dataframe \<Rightarrow> anomaly_result" where
  "detect_anomalies e df =
     (let found = List.map_filter (col_anomaly e df) (numeric_cols df)
      in \<lparr>numeric_columns_analyzed = length (numeric_cols df),
          columns_with_anomalies = length found,
          anomalies = found\<rparr>)"

definition AnomalyDetectorTool_run :: "env \<Rightarrow> string \<Rightarrow> failure + anomaly_result" where
  "AnomalyDetectorTool_run e file_path =
     (case read_frame e file_path of
        Inl ex \<Rightarrow> Inl (Caught ''Error detecting anomalies: '' ex)
      | Inr df \<Rightarrow> Inr (detect_anomalies e df))"

section \<open>Reference definitions and example inputs\<close>

text \<open>
  The mean and the standard deviation over the reals, the variance having the
  denominator \<open>n - ddof\<close>: the figures that numpy approximates in float64.
\<close>

definition np_mean :: "real list \<Rightarrow> real" where
  "np_mean xs = sum_list xs / of_nat (length xs)"

definition sum_sq_dev :: "real list \<Rightarrow> real" where
  "sum_sq_dev xs = (\<Sum>x\<leftarrow>xs. (x - np_mean xs)\<^sup>2)"

definition np_std :: "nat \<Rightarrow> real list \<Rightarrow> real" where
  "np_std ddof xs = sqrt (sum_sq_dev xs / (of_nat (length xs) - of_nat ddof))"

text \<open>
  The z-score of a value over the reals, with the population standard deviation
  (\<open>ddof = 0\<close>), and an array of z-scores computed without rounding error.
\<close>

definition population_z :: "real list \<Rightarrow> real \<Rightarrow> real" where
  "population_z xs x = (x - np_mean xs) / np_std 0 xs"

definition exact_zscore :: "real list \<Rightarrow> f64 list" where
  "exact_zscore xs = map (\<lambda>x. Finite (population_z xs x)) xs"


text \<open>The non-missing values of a numeric column of a frame.\<close>

definition numeric_values :: "dataframe \<Rightarrow> string \<Rightarrow> real list" where
  "numeric_values df col = (case df_get df col of Some (Numeric vs) \<Rightarrow> dropna vs | _ \<Rightarrow> [])"

text \<open>
  An environment without files, to be updated by the examples. The text of the
  examples is ASCII, of which the decimal digits are \<open>0\<close> to \<open>9\<close>. It computes
  z-scores without rounding error: where an example does not say otherwise, none of
  its z-scores is so close to three that the rounding of float64 decides the
  comparison.
\<close>

definition no_files :: env where
  "no_files =
     \<lparr>read_csv = (\<lambda>p. Inl (OSError ''No such file'')),
      read_json = (\<lambda>p. Inl (OSError ''No such file'')),
      memory_usage = (\<lambda>df. 0),
      path_exists = (\<lambda>p. False),
      load_json = (\<lambda>p. Inl (OSError ''No such file'')),
      to_datetime = (\<lambda>s. []),
      str_num = (\<lambda>x. []),
      str_stamp = (\<lambda>t. []),
      isdecimal = (\<lambda>c. 48 \<le> c \<and> c \<le> 57),
      scipy_zscore = exact_zscore\<rparr>"




text \<open>
  Nine values \<open>10\<close> and one \<open>11\<close>. Over the reals the z-score of \<open>11\<close> is exactly
  three. In float64 the mean is the float nearest to \<open>10.1\<close> and the deviation comes
  out just below \<open>0.3\<close>: the z-scores that scipy returns for this column are
  \<open>-0.33333333333333215\<close> and \<open>3.0000000000000013\<close>, the two floats below.
\<close>

definition tens :: "real list" where
  "tens = [10, 10, 10, 10, 10, 10, 10, 10, 10, 11]"

definition tens_frame :: dataframe where
  "tens_frame = [(''x'', Numeric (map Some tens))]"

definition tens_zscore :: "f64 list" where
  "tens_zscore =
     replicate 9 (Finite (- 93824992236885 / 281474976710656)) @
     [Finite (6755399441055747 / 2251799813685248)]"

definition tens_env :: env where
  "tens_env = no_files\<lparr>
     read_csv := (\<lambda>p. Inr tens_frame),
     scipy_zscore := (\<lambda>xs. if xs = tens then tens_zscore else exact_zscore xs)\<rparr>"

text \<open>A column with two values present and a column of four equal values.\<close>

definition flat_frame :: dataframe where
  "flat_frame =
     [(''a'', Numeric [Some 1, None, Some 1000]),
      (''b'', Numeric [Some 7, Some 7, Some 7, Some 7])]"

definition flat_env :: env where
  "flat_env = no_files\<lparr>read_csv := (\<lambda>p. Inr flat_frame)\<rparr>"

text \<open>
  What the configuration loader needs of a document: an entry it can read the key
  \<^verbatim>\<open>field\<close> of, the value stored under a key or a default, and a value of
  \<^verbatim>\<open>critical_data_elements\<close> it can measure and walk through.
\<close>

definition has_field :: "json \<Rightarrow> bool" where
  "has_field j = (case j of JObj kvs \<Rightarrow> map_of kvs ''field'' \<noteq> None | _ \<Rightarrow> False)"

definition field_of :: "json \<Rightarrow> json" where
  "field_of j = (case j of JObj kvs \<Rightarrow> (case map_of kvs ''field'' of None \<Rightarrow> JNull | Some v \<Rightarrow> v) | _ \<Rightarrow> JNull)"

definition lookup :: "(string \<times> json) list \<Rightarrow> string \<Rightarrow> json \<Rightarrow> json" where
  "lookup kvs key dflt = (case map_of kvs key of None \<Rightarrow> dflt | Some v \<Rightarrow> v)"

fun usable_entries :: "json \<Rightarrow> bool" where
  "usable_entries (JArr xs) = list_all has_field xs"
| "usable_entries (JObj kvs) = (kvs = [])"
| "usable_entries (JStr s) = (s = [])"
| "usable_entries _ = False"

text \<open>
  Configuration documents: the empty object; one with every top-level key and null
  for the list of elements; one with two elements.
\<close>

definition empty_config_env :: env where
  "empty_config_env = no_files\<lparr>load_json := (\<lambda>p. Inr (JObj []))\<rparr>"

definition null_entries_env :: env where
  "null_entries_env = no_files\<lparr>load_json := (\<lambda>p. Inr (JObj
     [(''dataset'', JStr ''customers''), (''description'', JStr ''Customer master data''),
      (''critical_data_elements'', JNull), (''quality_thresholds'', JObj [])]))\<rparr>"

definition sample_config :: json where
  "sample_config = JObj
     [(''dataset'', JStr ''customers''),
      (''critical_data_elements'',
         JArr [JObj [(''field'', JStr ''customer_id''), (''nullable'', JBool False), (''unique'', JBool True)],
               JObj [(''field'', JStr ''email''), (''nullable'', JBool False)]]),
      (''quality_thresholds'', JObj [(''completeness'', JNum (99 / 100))])]"

definition sample_config_env :: env where
  "sample_config_env = no_files\<lparr>load_json := (\<lambda>p. if p = ''cde.json'' then Inr sample_config else Inl (OSError ''No such file''))\<rparr>"

text \<open>A small table of customers, read from a CSV file.\<close>

definition customers :: dataframe where
  "customers =
     [(''customer_id'', Numeric [Some 1, Some 2, Some 3, Some 4]),
      (''email'', Object [Some (ustr ''ann@example.com''), Some (ustr ''not-an-email''), None, Some (ustr ''dan@example.org'')])]"

definition customers_env :: env where
  "customers_env = no_files\<lparr>
     read_csv := (\<lambda>p. if p = ''data/customers.csv'' then Inr customers else Inl (OSError ''No such file'')),
     memory_usage := (\<lambda>df. 1048576)\<rparr>"

text \<open>
  Modelled from the spec: the inference of critical data elements from column names,
  which no code of the repository implements. A column matches when its name, in
  lower case, contains an entry of the vocabulary as a substring.
\<close>

definition lower :: "char \<Rightarrow> char" where
  "lower c = (let n = (of_char c :: nat) in if 65 \<le> n \<and> n \<le> 90 then char_of (n + 32) else c)"

fun contains_sub :: "string \<Rightarrow> string \<Rightarrow> bool" where
  "contains_sub [] p = (p = [])"
| "contains_sub (c # cs) p = (take (length p) (c # cs) = p \<or> contains_sub cs p)"

definition matches_cde_pattern :: "string \<Rightarrow> bool" where
  "matches_cde_pattern col =
     list_ex (\<lambda>p. contains_sub (map lower col) (map lower p)) CDE_PATTERNS"

text \<open>A CSV file that has a header line and no record.\<close>

definition header_only :: dataframe where
  "header_only = [(''customer_id'', Object []), (''email'', Object [])]"

definition header_only_env :: env where
  "header_only_env = no_files\<lparr>read_csv := (\<lambda>p. Inr header_only)\<rparr>"

text \<open>
  Example tables for the validator: three addresses of which one is malformed; two
  birth dates, the second being 4 November 2026, with a parser that knows these two
  dates; a ledger with balances and credit scores, some missing; two equal malformed
  addresses with a configuration that wants them unique. Day 20760 since the epoch is
  3 November 2026.
\<close>

definition thirds :: dataframe where
  "thirds = [(''email'', Object [Some (ustr ''not-an-email''), Some (ustr ''ann@example.com''), Some (ustr ''dan@example.org'')])]"

definition thirds_env :: env where
  "thirds_env = no_files\<lparr>read_csv := (\<lambda>p. Inr thirds)\<rparr>"

definition births :: dataframe where
  "births = [(''date_of_birth'', Object [Some (ustr ''1990-05-17''), Some (ustr ''2026-11-04'')])]"

definition known_dates :: "series \<Rightarrow> timestamp option list" where
  "known_dates s =
     (case s of
        Object vs \<Rightarrow>
          map (\<lambda>v. case v of
                      None \<Rightarrow> None
                    | Some x \<Rightarrow> map_of [(ustr ''1990-05-17'', 642902400000000000),
                                        (ustr ''2026-11-04'', 1793750400000000000)] x) vs
      | _ \<Rightarrow> [])"

definition births_env :: env where
  "births_env = no_files\<lparr>read_csv := (\<lambda>p. Inr births), to_datetime := known_dates\<rparr>"

definition audit_env :: env where
  "audit_env = no_files\<lparr>
     read_csv := (\<lambda>p. Inr customers),
     path_exists := (\<lambda>p. p = ''cde.json''),
     load_json := (\<lambda>p. Inr sample_config)\<rparr>"

definition ledger :: dataframe where
  "ledger =
     [(''account_balance'', Numeric [Some 120, None, Some (- 35), Some 0, Some (- 1)]),
      (''credit_score'', Numeric [Some 299, Some 300, None, Some 850, Some 851])]"

definition ledger_env :: env where
  "ledger_env = no_files\<lparr>read_csv := (\<lambda>p. Inr ledger)\<rparr>"


text \<open>
  The present values of \<^verbatim>\<open>account_balance\<close> below zero and the present values of
  \<^verbatim>\<open>credit_score\<close> outside \<open>[300, 850]\<close>, counted on the loaded frame.
\<close>

definition present_negative :: "dataframe \<Rightarrow> nat" where
  "present_negative df = length (filter (\<lambda>x. x < 0) (numeric_values df ''account_balance''))"

definition present_out_of_range :: "dataframe \<Rightarrow> nat" where
  "present_out_of_range df =
     length (filter (\<lambda>x. x < 300 \<or> 850 < x) (numeric_values df ''credit_score''))"


text \<open>
  The present cells of a column that fail a pattern, in the order of the rows, and
  the texts of the cells whose parsed date is after the day \<open>today\<close>.
\<close>

fun offending :: "(pystr \<Rightarrow> bool) \<Rightarrow> series \<Rightarrow> cell list" where
  "offending matches (Object vs) = map Str (filter (\<lambda>x. \<not> matches x) (dropna vs))"
| "offending matches (Numeric vs) = map Num (dropna vs)"
| "offending matches (Datetime vs) = map Stamp (dropna vs)"

definition born_after :: "env \<Rightarrow> int \<Rightarrow> series \<Rightarrow> pystr list" where
  "born_after e today s =
     map snd (filter (\<lambda>(t, x). case t of None \<Rightarrow> False | Some ts \<Rightarrow> today < date_of ts)
                (zip (to_datetime e s) (astype_str e s)))"

text \<open>
  The specification's formula of the validity score, over the frame as loaded and
  without rounding.
\<close>

definition spec_validity_score :: "dataframe \<Rightarrow> issue list \<Rightarrow> real" where
  "spec_validity_score df found =
     1 - real (sum_list (map invalid_count found)) / real (len_df df * length (df_columns df))"

text \<open>
  The same formula evaluated in float64: the quotient of the two integers and its
  difference from one are each the nearest float64.
\<close>

definition float_validity_score :: "dataframe \<Rightarrow> issue list \<Rightarrow> real" where
  "float_validity_score df found =
     fl (1 - fl (real (sum_list (map invalid_count found)) /
                 real (len_df df * length (df_columns df))))"

text \<open>The results of the validator on the examples.\<close>

definition thirds_result :: validation_result where
  "thirds_result =
     \<lparr>total_records = 3, total_issues = 1, critical_issues = 0, high_issues = 1,
      medium_issues = 0, validity_score = fl (6667 / 10000),
      issues =
        [\<lparr>field = ''email'', rule = ''format_validation'', severity = ''HIGH'',
          invalid_count = 1, sample_invalid = Some [Str (ustr ''not-an-email'')],
          message = ''1 records have invalid email format''\<rparr>]\<rparr>"

definition births_result :: validation_result where
  "births_result =
     \<lparr>total_records = 2, total_issues = 1, critical_issues = 1, high_issues = 0,
      medium_issues = 0, validity_score = 3 / 4,
      issues =
        [\<lparr>field = ''date_of_birth'', rule = ''future_date'', severity = ''CRITICAL'',
          invalid_count = 1, sample_invalid = Some [Str (ustr ''2026-11-04'')],
          message = ''1 records have future date of birth''\<rparr>]\<rparr>"

definition no_issues_result :: validation_result where
  "no_issues_result =
     \<lparr>total_records = 2, total_issues = 0, critical_issues = 0, high_issues = 0,
      medium_issues = 0, validity_score = 1, issues = []\<rparr>"

definition audit_result :: validation_result where
  "audit_result =
     \<lparr>total_records = 4, total_issues = 2, critical_issues = 1, high_issues = 1,
      medium_issues = 0, validity_score = 3 / 4,
      issues =
        [\<lparr>field = ''email'', rule = ''format_validation'', severity = ''HIGH'',
          invalid_count = 1, sample_invalid = Some [Str (ustr ''not-an-email'')],
          message = ''1 records have invalid email format''\<rparr>,
         \<lparr>field = ''email'', rule = ''cde_not_nullable'', severity = ''CRITICAL'',
          invalid_count = 1, sample_invalid = None,
          message = ''CDE field 'email' has 1 null values but is marked as non-nullable''\<rparr>]\<rparr>"

definition ledger_result :: validation_result where
  "ledger_result =
     \<lparr>total_records = 5, total_issues = 2, critical_issues = 0, high_issues = 2,
      medium_issues = 0, validity_score = fl (3 / 5),
      issues =
        [\<lparr>field = ''account_balance'', rule = ''negative_value'', severity = ''HIGH'',
          invalid_count = 2, sample_invalid = Some [Num (- 35), Num (- 1)],
          message = ''2 records have negative account balance''\<rparr>,
         \<lparr>field = ''credit_score'', rule = ''range_validation'', severity = ''HIGH'',
          invalid_count = 2, sample_invalid = Some [Num 299, Num 851],
          message = ''2 records have credit score outside valid range (300-850)''\<rparr>]\<rparr>"

definition dupes :: dataframe where
  "dupes = [(''email'', Object [Some (ustr ''unknown''), Some (ustr ''unknown'')])]"

definition dupes_env :: env where
  "dupes_env = no_files\<lparr>
     read_csv := (\<lambda>p. Inr dupes),
     path_exists := (\<lambda>p. p = ''cde.json''),
     load_json := (\<lambda>p. Inr (JObj [(''critical_data_elements'',
        JArr [JObj [(''field'', JStr ''email''), (''unique'', JBool True)]])]))\<rparr>"

definition dupes_result :: validation_result where
  "dupes_result =
     \<lparr>total_records = 2, total_issues = 2, critical_issues = 1, high_issues = 1,
      medium_issues = 0, validity_score = - 1 / 2,
      issues =
        [\<lparr>field = ''email'', rule = ''format_validation'', severity = ''HIGH'',
          invalid_count = 2, sample_invalid = Some [Str (ustr ''unknown''), Str (ustr ''unknown'')],
          message = ''2 records have invalid email format''\<rparr>,
         \<lparr>field = ''email'', rule = ''cde_uniqueness'', severity = ''CRITICAL'',
          invalid_count = 1, sample_invalid = None,
          message = ''CDE field 'email' has 1 duplicate values but is marked as unique''\<rparr>]\<rparr>"

section \<open>Verification\<close>

subsection \<open>Float arithmetic\<close>

lemma round_half_even_nonneg: "0 \<le> y \<Longrightarrow> 0 \<le> round_half_even y"
  unfolding round_half_even_def Let_def by (auto simp: zero_le_floor intro: add_nonneg_nonneg)

lemma round_half_even_le:
  assumes "y \<le> of_int n"
  shows "round_half_even y \<le> n"
proof (cases "\<lfloor>y\<rfloor> = n")
  case True
  then have "of_int n \<le> y" using of_int_floor_le[of y] by simp
  with assms have "y = of_int n" by simp
  then show ?thesis by (simp add: round_half_even_def)
next
  case False
  have "\<lfloor>y\<rfloor> \<le> n" using assms by (simp add: floor_le_iff)
  with False have "\<lfloor>y\<rfloor> + 1 \<le> n" by simp
  then show ?thesis unfolding round_half_even_def Let_def by auto
qed

lemma round_half_even_ge:
  assumes "of_int n \<le> y"
  shows "n \<le> round_half_even y"
proof -
  have "n \<le> \<lfloor>y\<rfloor>" using assms by (simp add: le_floor_iff)
  then show ?thesis unfolding round_half_even_def Let_def by auto
qed

lemma round_half_even_of_int: "round_half_even (of_int n) = n"
  by (simp add: round_half_even_def)

text \<open>The exponent of a number brackets it between two powers of two.\<close>

lemma powr2_int: "2 powr (real_of_int e) = (2::real) powi e"
  by (simp add: powr_real_of_int')

lemma powr2_int_Suc: "2 powr (real_of_int e + 1) = (2::real) powi (e + 1)"
  using powr_real_of_int'[of "2::real" "e + 1"] by simp

lemma floor_log2_bracket:
  assumes "x \<noteq> 0"
  shows "2 powi \<lfloor>log 2 \<bar>x\<bar>\<rfloor> \<le> \<bar>x\<bar>" and "\<bar>x\<bar> < 2 powi (\<lfloor>log 2 \<bar>x\<bar>\<rfloor> + 1)"
proof -
  have pos: "0 < \<bar>x\<bar>" using assms by simp
  have "2 powr (of_int \<lfloor>log 2 \<bar>x\<bar>\<rfloor>) \<le> \<bar>x\<bar> \<and> \<bar>x\<bar> < 2 powr (of_int \<lfloor>log 2 \<bar>x\<bar>\<rfloor> + 1)"
    using floor_log_eq_powr_iff[of "\<bar>x\<bar>" 2 "\<lfloor>log 2 \<bar>x\<bar>\<rfloor>"] pos by simp
  then show "2 powi \<lfloor>log 2 \<bar>x\<bar>\<rfloor> \<le> \<bar>x\<bar>" and "\<bar>x\<bar> < 2 powi (\<lfloor>log 2 \<bar>x\<bar>\<rfloor> + 1)"
    unfolding powr2_int powr2_int_Suc by simp_all
qed

lemma floor_log2_eq:
  assumes "2 powi e \<le> \<bar>x\<bar>" "\<bar>x\<bar> < 2 powi (e + 1)"
  shows "\<lfloor>log 2 \<bar>x\<bar>\<rfloor> = e"
proof -
  have pos: "0 < \<bar>x\<bar>" using assms(1) zero_less_power_int[of "2::real" e] by linarith
  have "2 powr (of_int e) \<le> \<bar>x\<bar> \<and> \<bar>x\<bar> < 2 powr (of_int e + 1)"
    using assms unfolding powr2_int powr2_int_Suc by simp
  then show ?thesis using floor_log_eq_powr_iff[of "\<bar>x\<bar>" 2 e] pos by simp
qed

text \<open>Evaluation: scale the number into the range of 53-bit integers.\<close>

lemma fl_scaled:
  assumes "2 ^ 52 \<le> \<bar>x\<bar> * 2 ^ k" "\<bar>x\<bar> * 2 ^ k < 2 ^ 53" "k \<le> 1074"
  shows "fl x = of_int (round_half_even (x * 2 ^ k)) / 2 ^ k"
proof -
  have x0: "x \<noteq> 0" using assms(1) by auto
  have p: "(2::real) powi (52 - int k) = 2 ^ 52 / 2 ^ k" "(2::real) powi (52 - int k + 1) = 2 ^ 53 / 2 ^ k"
    by (simp_all add: power_int_diff power_int_add)
  have "2 powi (52 - int k) \<le> \<bar>x\<bar>" "\<bar>x\<bar> < 2 powi (52 - int k + 1)"
    unfolding p using assms(1,2) by (simp_all add: divide_le_eq less_divide_eq)
  then have e: "\<lfloor>log 2 \<bar>x\<bar>\<rfloor> = 52 - int k" by (rule floor_log2_eq)
  have m: "max (52 - int k) (- 1022) = 52 - int k" using assms(3) by simp
  have u: "(2::real) powi (- int k) = 1 / 2 ^ k"
    by (simp add: power_int_minus divide_simps)
  show ?thesis using x0 by (simp add: fl_def e m u Let_def)
qed

lemma fl_zero: "fl 0 = 0"
  by (simp add: fl_def)

text \<open>Signs and bounds.\<close>

lemma fl_nonneg: "0 \<le> x \<Longrightarrow> 0 \<le> fl x"
  by (auto simp: fl_def Let_def intro!: mult_nonneg_nonneg round_half_even_nonneg
        divide_nonneg_pos)

lemma fl_nonpos: "x \<le> 0 \<Longrightarrow> fl x \<le> 0"
proof (cases "x = 0")
  case True then show ?thesis by (simp add: fl_def)
next
  case False
  assume "x \<le> 0"
  define u where "u = (2::real) powi (max \<lfloor>log 2 \<bar>x\<bar>\<rfloor> (- 1022) - 52)"
  have u: "0 < u" by (simp add: u_def)
  have "x / u \<le> of_int 0" using \<open>x \<le> 0\<close> u by (simp add: divide_le_0_iff)
  then have "round_half_even (x / u) \<le> 0" by (rule round_half_even_le)
  then have "of_int (round_half_even (x / u)) * u \<le> 0"
    using u by (simp add: mult_le_0_iff)
  then show ?thesis using False by (simp add: fl_def Let_def u_def)
qed

lemma floor_log2_le:
  assumes "x \<noteq> 0" "\<bar>x\<bar> < 2 ^ n"
  shows "\<lfloor>log 2 \<bar>x\<bar>\<rfloor> < int n"
proof -
  have "log 2 \<bar>x\<bar> < real n"
    using assms by (subst log_less_iff) (simp_all add: powr_realpow)
  then show ?thesis by (simp add: floor_less_iff)
qed

lemma fl_le_int:
  assumes "x \<le> of_int B" "\<bar>x\<bar> < 2 ^ 53"
  shows "fl x \<le> of_int B"
proof (cases "x = 0")
  case True with assms show ?thesis by (simp add: fl_def)
next
  case False
  define e where "e = max \<lfloor>log 2 \<bar>x\<bar>\<rfloor> (- 1022)"
  define n where "n = nat (52 - e)"
  have "\<lfloor>log 2 \<bar>x\<bar>\<rfloor> < 53" using floor_log2_le[OF False assms(2)] by simp
  then have e52: "e \<le> 52" by (simp add: e_def)
  then have u: "(2::real) powi (e - 52) = 1 / 2 ^ n"
  proof -
    have "e - 52 = - int n" using e52 by (simp add: n_def)
    then show ?thesis by (simp add: power_int_minus divide_simps)
  qed
  have "x * 2 ^ n \<le> of_int (B * 2 ^ n)" using assms(1) by simp
  then have "round_half_even (x * 2 ^ n) \<le> B * 2 ^ n" by (rule round_half_even_le)
  then have "(of_int (round_half_even (x * 2 ^ n)) :: real) \<le> of_int (B * 2 ^ n)"
    by (simp only: of_int_le_iff)
  then have "of_int (round_half_even (x * 2 ^ n)) / 2 ^ n \<le> (of_int B :: real)"
    by (simp add: divide_le_eq)
  then show ?thesis using False by (simp add: fl_def Let_def e_def[symmetric] u)
qed

lemma fl_ge_pow:
  assumes "0 < x" "- 1022 \<le> \<lfloor>log 2 x\<rfloor>"
  shows "2 powi \<lfloor>log 2 x\<rfloor> \<le> fl x"
proof -
  define e where "e = \<lfloor>log 2 x\<rfloor>"
  define u where "u = (2::real) powi (e - 52)"
  have u: "0 < u" by (simp add: u_def)
  have ax: "\<bar>x\<bar> = x" using assms(1) by simp
  have "2 powi e \<le> x" using floor_log2_bracket(1)[of x] assms(1) by (simp add: e_def)
  moreover have "(2::real) powi e = 2 ^ 52 * u" by (simp add: u_def power_int_diff)
  ultimately have "of_int (2 ^ 52) \<le> x / u" using u by (simp add: le_divide_eq)
  then have "2 ^ 52 \<le> round_half_even (x / u)" by (rule round_half_even_ge)
  then have "(of_int (2 ^ 52) :: real) \<le> of_int (round_half_even (x / u))"
    by (simp only: of_int_le_iff)
  then have "2 ^ 52 * u \<le> of_int (round_half_even (x / u)) * u" using u by simp
  moreover have "fl x = of_int (round_half_even (x / u)) * u"
  proof -
    have x0: "x \<noteq> 0" using assms(1) by simp
    have m: "max \<lfloor>log 2 \<bar>x\<bar>\<rfloor> (- 1022) = e" using assms(2) by (simp add: e_def ax)
    show ?thesis unfolding fl_def Let_def m u_def using x0 by (simp only: if_False)
  qed
  ultimately show ?thesis
    unfolding e_def[symmetric] \<open>(2::real) powi e = 2 ^ 52 * u\<close> by simp
qed

lemma fl_le_neg_pow:
  assumes "x < 0" "- 1022 \<le> \<lfloor>log 2 \<bar>x\<bar>\<rfloor>"
  shows "fl x \<le> - (2 powi \<lfloor>log 2 \<bar>x\<bar>\<rfloor>)"
proof -
  define e where "e = \<lfloor>log 2 \<bar>x\<bar>\<rfloor>"
  define u where "u = (2::real) powi (e - 52)"
  have u: "0 < u" by (simp add: u_def)
  have p: "(2::real) powi e = 2 ^ 52 * u" by (simp add: u_def power_int_diff)
  have "2 powi e \<le> \<bar>x\<bar>" using floor_log2_bracket(1)[of x] assms(1) by (simp add: e_def)
  then have "x \<le> - (2 ^ 52 * u)" using assms(1) unfolding p by simp
  then have "x / u \<le> of_int (- (2 ^ 52))" using u by (simp add: divide_le_eq)
  then have "round_half_even (x / u) \<le> - (2 ^ 52)" by (rule round_half_even_le)
  then have "(of_int (round_half_even (x / u)) :: real) \<le> of_int (- (2 ^ 52))"
    by (simp only: of_int_le_iff)
  then have "of_int (round_half_even (x / u)) * u \<le> of_int (- (2 ^ 52)) * u"
    using u by (intro mult_right_mono) simp_all
  moreover have "fl x = of_int (round_half_even (x / u)) * u"
  proof -
    have x0: "x \<noteq> 0" using assms(1) by simp
    have m: "max \<lfloor>log 2 \<bar>x\<bar>\<rfloor> (- 1022) = e" using assms(2) by (simp add: e_def)
    show ?thesis unfolding fl_def Let_def m u_def using x0 by (simp only: if_False)
  qed
  ultimately show ?thesis unfolding e_def[symmetric] p by simp
qed

lemma fl_ge_one: "1 \<le> x \<Longrightarrow> 1 \<le> fl x"
proof -
  assume x: "1 \<le> x"
  then have "0 \<le> log 2 x" by simp
  then have e: "0 \<le> \<lfloor>log 2 x\<rfloor>" by simp
  have "(1::real) \<le> 2 powi \<lfloor>log 2 x\<rfloor>" using e by (simp add: one_le_power_int)
  also have "\<dots> \<le> fl x" using x e by (intro fl_ge_pow) linarith+
  finally show ?thesis .
qed

lemma fl_neg_decimal:
  assumes "k < 0"
  shows "fl (of_int k / 10 ^ 4) < 0"
proof -
  define x :: real where "x = of_int k / 10 ^ 4"
  have k: "(of_int k :: real) \<le> - 1" using assms by linarith
  have neg: "x < 0" using assms by (simp add: x_def divide_less_0_iff)
  have "1 / 10 ^ 4 \<le> \<bar>x\<bar>" using k by (simp add: x_def field_simps)
  then have "2 powr (- 14) \<le> \<bar>x\<bar>" by (simp add: powr_minus powr_numeral divide_simps)
  then have "- 14 \<le> log 2 \<bar>x\<bar>" using neg by (subst le_log_iff) simp_all
  then have e: "- 14 \<le> \<lfloor>log 2 \<bar>x\<bar>\<rfloor>" by (simp add: le_floor_iff)
  have "fl x \<le> - (2 powi \<lfloor>log 2 \<bar>x\<bar>\<rfloor>)" using neg e by (intro fl_le_neg_pow) auto
  moreover have "(0::real) < 2 powi \<lfloor>log 2 \<bar>x\<bar>\<rfloor>" by simp
  ultimately show ?thesis unfolding x_def by linarith
qed

subsection \<open>Anomaly detector\<close>








lemma is_constant_iff: "is_constant xs \<longleftrightarrow> (\<exists>c. \<forall>x \<in> set xs. x = c)"
  unfolding is_constant_def list_all_iff by (cases xs) auto







lemma dropna_map_Some: "dropna (map Some xs) = xs" by (induction xs) auto




lemma quantile_const:
  assumes ne: "xs \<noteq> []" and c: "\<forall>x \<in> set xs. x = c" and q: "0 \<le> q" "q \<le> 1"
  shows "quantile xs q = c"
proof -
  define n where "n = length xs"
  define h where "h = (of_nat n - 1) * q"
  have n1: "1 \<le> n" using ne by (cases xs) (auto simp: n_def)
  then have n0: "(0::real) \<le> of_nat n - 1" by simp
  have h0: "0 \<le> h" unfolding h_def using n0 q by simp
  have "h \<le> (of_nat n - 1) * 1" unfolding h_def using n0 q by (intro mult_left_mono) auto
  then have h1: "h \<le> of_int (int n - 1)" by simp
  have "\<lceil>h\<rceil> \<le> int n - 1" using h1 by (subst ceiling_le_iff) simp
  then have hi: "nat \<lceil>h\<rceil> < n" using n1 by linarith
  have "\<lfloor>h\<rfloor> \<le> \<lceil>h\<rceil>" by (rule floor_le_ceiling)
  then have lo: "nat \<lfloor>h\<rfloor> < n" using hi by linarith
  have len: "length (sort xs) = n" by (simp add: n_def)
  have "sort xs ! nat \<lfloor>h\<rfloor> \<in> set (sort xs)" using lo len by (metis nth_mem)
  then have a: "sort xs ! nat \<lfloor>h\<rfloor> = c" using c by simp
  have "sort xs ! nat \<lceil>h\<rceil> \<in> set (sort xs)" using hi len by (metis nth_mem)
  then have b: "sort xs ! nat \<lceil>h\<rceil> = c" using c by simp
  show ?thesis
    unfolding quantile_def Let_def n_def[symmetric] h_def[symmetric] by (simp add: a b)
qed

lemma zscore_outliers_const:
  assumes "\<forall>x \<in> set xs. x = c"
  shows "zscore_outliers e xs = 0"
proof -
  have "is_constant xs" unfolding is_constant_iff using assms by blast
  then show ?thesis by (simp add: zscore_outliers_def zscore_def filter_empty_conv)
qed

lemma iqr_outliers_const:
  assumes "\<forall>x \<in> set xs. x = c"
  shows "iqr_outliers xs = 0"
proof (cases "xs = []")
  case True then show ?thesis by (simp add: iqr_outliers_def)
next
  case False
  have "quantile xs (1/4) = c" "quantile xs (3/4) = c"
    using quantile_const[OF False assms] by simp_all
  then show ?thesis using assms by (auto simp: iqr_outliers_def filter_empty_conv)
qed

lemma analyze_col_const: "\<forall>x \<in> set xs. x = c \<Longrightarrow> analyze_col e col xs = None"
  by (simp add: analyze_col_def Let_def zscore_outliers_const iqr_outliers_const)

lemma analyze_col_column: "analyze_col e col xs = Some r \<Longrightarrow> column r = col"
  by (auto simp: analyze_col_def Let_def split: if_splits)


lemma col_anomaly_column: "col_anomaly e df col = Some r \<Longrightarrow> column r = col"
  by (auto simp: col_anomaly_def split: option.splits series.splits dest: analyze_col_column)

lemma reported_column:
  "r \<in> set (anomalies (detect_anomalies e df)) \<Longrightarrow> col_anomaly e df (column r) = Some r"
proof -
  assume "r \<in> set (anomalies (detect_anomalies e df))"
  then obtain col where "col_anomaly e df col = Some r"
    by (auto simp: detect_anomalies_def Let_def map_filter_def)
  then show ?thesis using col_anomaly_column by fastforce
qed





text \<open>
  The float64 z-scores decide the count. On the column \<open>tens\<close> the exact z-score
  of the value \<open>11\<close> is three, which the strict comparison would not count; the
  float64 that scipy returns lies above three, and the detector counts the value.
\<close>

lemma tens_std: "np_mean tens = 101 / 10 \<and> np_std 0 tens = 3 / 10"
proof -
  have m: "np_mean tens = 101 / 10" by (simp add: np_mean_def tens_def)
  have "sum_sq_dev tens = 9 / 10"
    by (simp add: sum_sq_dev_def m power2_eq_square) (simp add: tens_def)
  then have "np_std 0 tens = sqrt ((3 / 10)\<^sup>2)"
    by (simp add: np_std_def tens_def power2_eq_square)
  then show ?thesis using m by simp
qed

lemma tens_counted:
  "population_z tens 11 = 3 \<and>
   AnomalyDetectorTool_run tens_env ''tens.csv'' =
     Inr \<lparr>numeric_columns_analyzed = 1, columns_with_anomalies = 1,
          anomalies = [\<lparr>column = ''x'', outliers_zscore = 1, outliers_iqr = 1\<rparr>]\<rparr>"
proof -
  have z: "population_z tens 11 = 3" by (simp add: population_z_def tens_std)
  have c: "\<not> is_constant tens" by (simp add: is_constant_def tens_def)
  have s: "scipy_zscore tens_env tens = tens_zscore" by (simp add: tens_env_def)
  have o: "zscore_outliers tens_env tens = 1"
    by (simp add: zscore_outliers_def zscore_def c s) (simp add: tens_zscore_def)
  have q: "iqr_outliers tens = 1"
    by (simp add: iqr_outliers_def quantile_def Let_def tens_def)
  have r: "read_frame tens_env ''tens.csv'' = Inr tens_frame"
    by (simp add: read_frame_def endswith_def tens_env_def)
  show ?thesis
    using z by (simp add: AnomalyDetectorTool_run_def r detect_anomalies_def numeric_cols_def
        tens_frame_def col_anomaly_def df_get_def dropna_map_Some analyze_col_def o q)
       (simp add: tens_def)
qed

text \<open>
  Claim C5. A numeric column with fewer than three values present is never reported.
  A column whose present values are all equal is not reported either: its z-scores
  are NaN, which no comparison counts, and its interquartile range is zero. The tool
  returns its result whenever the file could be read: no column makes it fail.
\<close>

theorem anomaly_short_or_constant_column:
  assumes "df_get df col = Some (Numeric vs)"
  shows "(length (dropna vs) < 3 \<longrightarrow> col \<notin> column ` set (anomalies (detect_anomalies e df))) \<and>
         ((\<forall>x \<in> set (dropna vs). x = c) \<longrightarrow>
            col_anomaly e df col = None \<and> col \<notin> column ` set (anomalies (detect_anomalies e df))) \<and>
         (\<forall>e' file_path. read_frame e' file_path = Inr df \<longrightarrow>
            AnomalyDetectorTool_run e' file_path = Inr (detect_anomalies e' df))"
proof -
  have none: "col \<notin> column ` set (anomalies (detect_anomalies e df))" if "col_anomaly e df col = None"
  proof
    assume "col \<in> column ` set (anomalies (detect_anomalies e df))"
    then obtain r where "r \<in> set (anomalies (detect_anomalies e df))" "column r = col" by auto
    then have "col_anomaly e df col = Some r" using reported_column by blast
    with that show False by simp
  qed
  have short: "col_anomaly e df col = None" if "length (dropna vs) < 3"
    using that assms by (simp add: col_anomaly_def analyze_col_def)
  have const: "col_anomaly e df col = None" if "\<forall>x \<in> set (dropna vs). x = c"
    using that assms by (simp add: col_anomaly_def analyze_col_const)
  show ?thesis using none short const by (auto simp: AnomalyDetectorTool_run_def)
qed

theorem anomaly_short_or_constant_column_witness:
  "df_get flat_frame ''a'' = Some (Numeric [Some 1, None, Some 1000]) \<and>
   df_get flat_frame ''b'' = Some (Numeric [Some 7, Some 7, Some 7, Some 7]) \<and>
   ''a'' \<notin> column ` set (anomalies (detect_anomalies flat_env flat_frame)) \<and>
   col_anomaly flat_env flat_frame ''b'' = None \<and>
   AnomalyDetectorTool_run flat_env ''t.csv'' = Inr (detect_anomalies flat_env flat_frame)"
proof -
  have a: "df_get flat_frame ''a'' = Some (Numeric [Some 1, None, Some 1000])"
    by (simp add: df_get_def flat_frame_def)
  have b: "df_get flat_frame ''b'' = Some (Numeric [Some 7, Some 7, Some 7, Some 7])"
    by (simp add: df_get_def flat_frame_def)
  have r: "read_frame flat_env ''t.csv'' = Inr flat_frame"
    by (simp add: read_frame_def flat_env_def no_files_def endswith_def)
  show ?thesis
    using anomaly_short_or_constant_column[OF a, where e = flat_env and c = 0]
      anomaly_short_or_constant_column[OF b, where e = flat_env and c = 7] a b r
    by simp
qed




subsection \<open>Dataset loader\<close>

text \<open>
  Claim C8. A path that ends in neither \<^verbatim>\<open>.csv\<close> nor \<^verbatim>\<open>.json\<close> yields the
  unsupported-format message; a reader that raises yields the load failure with the
  exception raised; otherwise the structure with base name, row count, column count,
  column names, the first three rows and the memory usage is returned. There is no
  fourth outcome.
\<close>

theorem loader_outcomes:
  "(\<not> endswith file_path ''.csv'' \<and> \<not> endswith file_path ''.json'' \<longrightarrow>
      DataLoaderTool_run e file_path =
        Inl (Message ''Error: Unsupported file format. Use CSV or JSON.'')) \<and>
   (endswith file_path ''.csv'' \<and> read_csv e file_path = Inl ex \<longrightarrow>
      DataLoaderTool_run e file_path = Inl (Caught ''Error loading file: '' ex)) \<and>
   (\<not> endswith file_path ''.csv'' \<and> endswith file_path ''.json'' \<and>
    read_json e file_path = Inl ex \<longrightarrow>
      DataLoaderTool_run e file_path = Inl (Caught ''Error loading file: '' ex)) \<and>
   (endswith file_path ''.csv'' \<and> read_csv e file_path = Inr df \<or>
    \<not> endswith file_path ''.csv'' \<and> endswith file_path ''.json'' \<and>
    read_json e file_path = Inr df \<longrightarrow>
      DataLoaderTool_run e file_path =
        Inr \<lparr>file_name = basename file_path,
             rows = len_df df,
             columns = length df,
             column_names = map fst df,
             sample_rows = to_records df 3,
             memory_usage_mb = np_round (fl (fl (memory_usage e df / 1024) / 1024)) 2\<rparr> \<and>
      length (to_records df 3) = min 3 (len_df df)) \<and>
   ((\<exists>info. DataLoaderTool_run e file_path = Inr info) \<or>
    DataLoaderTool_run e file_path =
      Inl (Message ''Error: Unsupported file format. Use CSV or JSON.'') \<or>
    (\<exists>cause. DataLoaderTool_run e file_path = Inl (Caught ''Error loading file: '' cause)))"
  by (auto simp: DataLoaderTool_run_def load_info_of_def df_columns_def to_records_def
           split: sum.splits)

theorem loader_outcomes_witness:
  "DataLoaderTool_run customers_env ''notes.txt'' =
     Inl (Message ''Error: Unsupported file format. Use CSV or JSON.'') \<and>
   DataLoaderTool_run customers_env ''gone.csv'' =
     Inl (Caught ''Error loading file: '' (OSError ''No such file'')) \<and>
   DataLoaderTool_run customers_env ''gone.json'' =
     Inl (Caught ''Error loading file: '' (OSError ''No such file'')) \<and>
   DataLoaderTool_run customers_env ''data/customers.csv'' =
     Inr \<lparr>file_name = ''customers.csv'', rows = 4, columns = 2,
          column_names = [''customer_id'', ''email''],
          sample_rows =
            [[(''customer_id'', Num 1), (''email'', Str (ustr ''ann@example.com''))],
             [(''customer_id'', Num 2), (''email'', Str (ustr ''not-an-email''))],
             [(''customer_id'', Num 3), (''email'', NA)]],
          memory_usage_mb = 1\<rparr>"
proof -
  have r: "read_csv customers_env ''gone.csv'' = Inl (OSError ''No such file'')"
    "read_json customers_env ''gone.json'' = Inl (OSError ''No such file'')"
    "read_csv customers_env ''data/customers.csv'' = Inr customers"
    by (simp_all add: customers_env_def no_files_def)
  have f: "fl 1024 = 1024" "fl 1 = 1" "fl 100 = 100"
    by (subst fl_scaled[where k = 42], simp_all add: round_half_even_def)
       (subst fl_scaled[where k = 52], simp_all add: round_half_even_def,
        subst fl_scaled[where k = 46], simp_all add: round_half_even_def)
  have p: "np_round (fl (fl (1048576 / 1024) / 1024)) 2 = 1"
    by (simp add: np_round_def f round_half_even_def)
  have t: "to_records customers 3 =
            [[(''customer_id'', Num 1), (''email'', Str (ustr ''ann@example.com''))],
             [(''customer_id'', Num 2), (''email'', Str (ustr ''not-an-email''))],
             [(''customer_id'', Num 3), (''email'', NA)]]"
    by (simp add: to_records_def customers_def upt_rec)
  show ?thesis
    using loader_outcomes[of "''notes.txt''" customers_env]
          loader_outcomes[of "''gone.csv''" customers_env "OSError ''No such file''"]
          loader_outcomes[of "''gone.json''" customers_env "OSError ''No such file''"]
          loader_outcomes[of "''data/customers.csv''" customers_env _ customers]
          r p t
    by (simp add: endswith_def basename_def customers_env_def no_files_def)
       (simp add: customers_def)
qed

subsection \<open>CDE configuration loader\<close>

lemma field_list_ok: "list_all has_field xs \<Longrightarrow> field_list xs = Inr (map field_of xs)"
  by (induction xs) (auto simp: has_field_def field_of_def split: json.splits)

lemma getitem_field_fail: "\<not> has_field x \<Longrightarrow> \<exists>ex. getitem_field x = Inl ex"
  by (cases x) (auto simp: has_field_def)

lemma field_list_fail: "\<not> list_all has_field xs \<Longrightarrow> \<exists>ex. field_list xs = Inl ex"
proof (induction xs)
  case Nil then show ?case by simp
next
  case (Cons x xs)
  show ?case
  proof (cases "has_field x")
    case True
    then obtain v where "getitem_field x = Inr v"
      by (cases x) (auto simp: has_field_def)
    moreover from True Cons have "\<exists>ex. field_list xs = Inl ex" by simp
    ultimately show ?thesis by auto
  next
    case False
    then show ?thesis using getitem_field_fail[OF False] by auto
  qed
qed

lemma summarize_object:
  "summarize_config (JObj kvs) =
     and_then (py_len (lookup kvs ''critical_data_elements'' (JArr []))) (\<lambda>n.
     and_then (py_iter (lookup kvs ''critical_data_elements'' (JArr []))) (\<lambda>entries.
     and_then (field_list entries) (\<lambda>fs.
       Inr \<lparr>dataset = lookup kvs ''dataset'' JNull,
            description = lookup kvs ''description'' JNull,
            cde_count = n, cde_fields = fs,
            thresholds = lookup kvs ''quality_thresholds'' (JObj []),
            cde_details = lookup kvs ''critical_data_elements'' (JArr [])\<rparr>)))"
  by (simp add: summarize_config_def and_then_def lookup_def)

lemma summarize_ok:
  assumes "usable_entries (lookup kvs ''critical_data_elements'' (JArr []))"
  shows "summarize_config (JObj kvs) =
     Inr \<lparr>dataset = lookup kvs ''dataset'' JNull,
          description = lookup kvs ''description'' JNull,
          cde_count = (case lookup kvs ''critical_data_elements'' (JArr []) of JArr xs \<Rightarrow> length xs | _ \<Rightarrow> 0),
          cde_fields = (case lookup kvs ''critical_data_elements'' (JArr []) of JArr xs \<Rightarrow> map field_of xs | _ \<Rightarrow> []),
          thresholds = lookup kvs ''quality_thresholds'' (JObj []),
          cde_details = lookup kvs ''critical_data_elements'' (JArr [])\<rparr>"
  using assms unfolding summarize_object
  by (cases "lookup kvs ''critical_data_elements'' (JArr [])")
     (auto simp: and_then_def field_list_ok)

lemma summarize_fail:
  assumes "\<not> usable_entries (lookup kvs ''critical_data_elements'' (JArr []))"
  shows "\<exists>ex. summarize_config (JObj kvs) = Inl ex"
proof (cases "lookup kvs ''critical_data_elements'' (JArr [])")
  case (JArr xs)
  with assms obtain ex where "field_list xs = Inl ex" using field_list_fail by auto
  with JArr show ?thesis unfolding summarize_object by (simp add: and_then_def)
next
  case (JObj ps)
  with assms obtain k v ps' where ps: "ps = (k, v) # ps'" by (cases ps) auto
  show ?thesis unfolding summarize_object JObj ps by (simp add: and_then_def)
next
  case (JStr t)
  with assms obtain c t' where t: "t = c # t'" by (cases t) auto
  show ?thesis unfolding summarize_object JStr t by (simp add: and_then_def)
qed (simp_all add: summarize_object and_then_def)

lemma summarize_not_object: "\<forall>kvs. config \<noteq> JObj kvs \<Longrightarrow> summarize_config config = Inl AttributeError"
  by (cases config) (simp_all add: summarize_config_def and_then_def)

text \<open>
  Claim C7, as the code has it. The loader returns its failure text exactly when the
  file cannot be opened or parsed, when the document is not an object, or when the
  value of \<^verbatim>\<open>critical_data_elements\<close> is not a list of objects that each have the key
  \<^verbatim>\<open>field\<close> (an empty object or an empty string in its place also pass). Every
  top-level key is optional; on success the six items are returned, with null, null,
  the empty list and the empty object as defaults.
\<close>

theorem cde_loader_outcomes:
  "(load_json e config_path = Inl ex \<longrightarrow>
      CDELoaderTool_run e config_path = Inl (Caught ''Error loading CDE config: '' ex)) \<and>
   (load_json e config_path = Inr config \<and> (\<forall>kvs. config \<noteq> JObj kvs) \<longrightarrow>
      CDELoaderTool_run e config_path = Inl (Caught ''Error loading CDE config: '' AttributeError)) \<and>
   (load_json e config_path = Inr (JObj kvs) \<and>
    \<not> usable_entries (lookup kvs ''critical_data_elements'' (JArr [])) \<longrightarrow>
      (\<exists>ex. CDELoaderTool_run e config_path = Inl (Caught ''Error loading CDE config: '' ex))) \<and>
   (load_json e config_path = Inr (JObj kvs) \<and>
    usable_entries (lookup kvs ''critical_data_elements'' (JArr [])) \<longrightarrow>
      CDELoaderTool_run e config_path =
        Inr \<lparr>dataset = lookup kvs ''dataset'' JNull,
             description = lookup kvs ''description'' JNull,
             cde_count = (case lookup kvs ''critical_data_elements'' (JArr []) of
                            JArr xs \<Rightarrow> length xs | _ \<Rightarrow> 0),
             cde_fields = (case lookup kvs ''critical_data_elements'' (JArr []) of
                             JArr xs \<Rightarrow> map field_of xs | _ \<Rightarrow> []),
             thresholds = lookup kvs ''quality_thresholds'' (JObj []),
             cde_details = lookup kvs ''critical_data_elements'' (JArr [])\<rparr>)"
proof (intro conjI impI)
  assume "load_json e config_path = Inl ex"
  then show "CDELoaderTool_run e config_path = Inl (Caught ''Error loading CDE config: '' ex)"
    by (simp add: CDELoaderTool_run_def)
next
  assume "load_json e config_path = Inr config \<and> (\<forall>kvs. config \<noteq> JObj kvs)"
  then show "CDELoaderTool_run e config_path = Inl (Caught ''Error loading CDE config: '' AttributeError)"
    by (simp add: CDELoaderTool_run_def summarize_not_object)
next
  assume a: "load_json e config_path = Inr (JObj kvs) \<and>
    \<not> usable_entries (lookup kvs ''critical_data_elements'' (JArr []))"
  then obtain ex where "summarize_config (JObj kvs) = Inl ex" using summarize_fail by blast
  with a show "\<exists>ex. CDELoaderTool_run e config_path = Inl (Caught ''Error loading CDE config: '' ex)"
    by (simp add: CDELoaderTool_run_def)
next
  assume a: "load_json e config_path = Inr (JObj kvs) \<and>
    usable_entries (lookup kvs ''critical_data_elements'' (JArr []))"
  then show "CDELoaderTool_run e config_path =
        Inr \<lparr>dataset = lookup kvs ''dataset'' JNull,
             description = lookup kvs ''description'' JNull,
             cde_count = (case lookup kvs ''critical_data_elements'' (JArr []) of
                            JArr xs \<Rightarrow> length xs | _ \<Rightarrow> 0),
             cde_fields = (case lookup kvs ''critical_data_elements'' (JArr []) of
                             JArr xs \<Rightarrow> map field_of xs | _ \<Rightarrow> []),
             thresholds = lookup kvs ''quality_thresholds'' (JObj []),
             cde_details = lookup kvs ''critical_data_elements'' (JArr [])\<rparr>"
    by (simp add: CDELoaderTool_run_def summarize_ok)
qed

lemma sample_config_kvs: "\<exists>kvs. sample_config = JObj kvs" by (simp add: sample_config_def)

theorem cde_loader_outcomes_witness:
  "CDELoaderTool_run sample_config_env ''gone.json'' =
     Inl (Caught ''Error loading CDE config: '' (OSError ''No such file'')) \<and>
   CDELoaderTool_run sample_config_env ''cde.json'' =
     Inr \<lparr>dataset = JStr ''customers'', description = JNull, cde_count = 2,
          cde_fields = [JStr ''customer_id'', JStr ''email''],
          thresholds = JObj [(''completeness'', JNum (99 / 100))],
          cde_details =
            JArr [JObj [(''field'', JStr ''customer_id''), (''nullable'', JBool False), (''unique'', JBool True)],
                  JObj [(''field'', JStr ''email''), (''nullable'', JBool False)]]\<rparr> \<and>
   (\<exists>ex. CDELoaderTool_run null_entries_env ''cde.json'' =
      Inl (Caught ''Error loading CDE config: '' ex))"
proof -
  have 1: "load_json sample_config_env ''gone.json'' = Inl (OSError ''No such file'')"
    by (simp add: sample_config_env_def no_files_def)
  have 2: "load_json sample_config_env ''cde.json'' = Inr sample_config"
    by (simp add: sample_config_env_def no_files_def)
  have 3: "load_json null_entries_env ''cde.json'' = Inr (JObj
     [(''dataset'', JStr ''customers''), (''description'', JStr ''Customer master data''),
      (''critical_data_elements'', JNull), (''quality_thresholds'', JObj [])])"
    by (simp add: null_entries_env_def no_files_def)
  show ?thesis
    using cde_loader_outcomes[of sample_config_env "''gone.json''" "OSError ''No such file''"]
          cde_loader_outcomes[of sample_config_env "''cde.json''" _ _
             "[(''dataset'', JStr ''customers''),
      (''critical_data_elements'',
         JArr [JObj [(''field'', JStr ''customer_id''), (''nullable'', JBool False), (''unique'', JBool True)],
               JObj [(''field'', JStr ''email''), (''nullable'', JBool False)]]),
      (''quality_thresholds'', JObj [(''completeness'', JNum (99 / 100))])]"]
          cde_loader_outcomes[of null_entries_env "''cde.json''" _ _ "[(''dataset'', JStr ''customers''), (''description'', JStr ''Customer master data''),
      (''critical_data_elements'', JNull), (''quality_thresholds'', JObj [])]"]
          1 2 3
    by (simp add: sample_config_def lookup_def has_field_def field_of_def)
qed

text \<open>
  The claim fails in both directions: the empty document, which has none of the keys,
  is summarised without failure; a well-formed document that has every top-level key,
  with null for the list of elements, fails.
\<close>

theorem cde_loader_counterexample:
  "CDELoaderTool_run empty_config_env ''cde.json'' =
     Inr \<lparr>dataset = JNull, description = JNull, cde_count = 0, cde_fields = [],
          thresholds = JObj [], cde_details = JArr []\<rparr> \<and>
   CDELoaderTool_run null_entries_env ''cde.json'' =
     Inl (Caught ''Error loading CDE config: '' TypeError)"
  by (simp add: CDELoaderTool_run_def empty_config_env_def null_entries_env_def no_files_def
        summarize_config_def and_then_def)

subsection \<open>Profiler\<close>

lemma fl_unit: "0 \<le> x \<Longrightarrow> x \<le> 1 \<Longrightarrow> 0 \<le> fl x \<and> fl x \<le> 1"
  using fl_nonneg[of x] fl_le_int[of x 1] by simp

lemma np_round_unit: "0 \<le> x \<Longrightarrow> x \<le> 1 \<Longrightarrow> 0 \<le> np_round x 4 \<and> np_round x 4 \<le> 1"
proof -
  assume x: "0 \<le> x" "x \<le> 1"
  define y where "y = fl (x * 10 ^ 4)"
  have y0: "0 \<le> y" unfolding y_def using x by (intro fl_nonneg) simp
  have "x * 10 ^ 4 \<le> of_int 10000" using x by simp
  moreover have "\<bar>x * 10 ^ 4\<bar> < 2 ^ 53" using x by simp
  ultimately have y1: "y \<le> of_int 10000" unfolding y_def by (rule fl_le_int)
  have a: "0 \<le> round_half_even y" using y0 by (rule round_half_even_nonneg)
  have b: "round_half_even y \<le> 10000" using y1 by (rule round_half_even_le)
  have "(of_int (round_half_even y) :: real) \<le> of_int 10000" using b by (simp only: of_int_le_iff)
  then have "0 \<le> of_int (round_half_even y) / (10 ^ 4 :: real)"
    "of_int (round_half_even y) / (10 ^ 4 :: real) \<le> 1"
    using a by simp_all
  then show ?thesis unfolding np_round_def y_def[symmetric] by (rule fl_unit)
qed

text \<open>Numbers with few significant bits are float64 values.\<close>

lemma fl_values:
  "fl 1 = 1" "fl (3 / 4) = 3 / 4" "fl (7 / 4) = 7 / 4" "fl (7 / 8) = 7 / 8"
  "fl 10000 = 10000" "fl 7500 = 7500" "fl 8750 = 8750"
  by (subst fl_scaled[where k = 52], simp_all add: round_half_even_def,
      subst fl_scaled[where k = 53], simp_all add: round_half_even_def,
      subst fl_scaled[where k = 52], simp_all add: round_half_even_def,
      subst fl_scaled[where k = 53], simp_all add: round_half_even_def,
      subst fl_scaled[where k = 39], simp_all add: round_half_even_def,
      subst fl_scaled[where k = 40], simp_all add: round_half_even_def,
      subst fl_scaled[where k = 39], simp_all add: round_half_even_def)

lemma nunique_le: "nunique s \<le> notna_count s"
  by (cases s) (simp_all add: length_remdups_leq)

lemma length_dropna: "length (dropna vs) \<le> length vs"
  by (induction vs rule: dropna.induct) auto

lemma notna_le: "notna_count s \<le> series_len s"
  by (cases s) (simp_all add: length_dropna)

lemma profile_col_bounds:
  assumes "0 < series_len s"
  shows "\<exists>c. completeness (profile_col cde_list col s) = Some c \<and> 0 \<le> c \<and> c \<le> 1"
    and "0 \<le> uniqueness (profile_col cde_list col s) \<and> uniqueness (profile_col cde_list col s) \<le> 1"
    and "notna_count s = 0 \<longrightarrow> uniqueness (profile_col cde_list col s) = 0"
proof -
  have "real (notna_count s) / real (series_len s) \<le> 1" using notna_le[of s] assms by simp
  then have "0 \<le> fl (real (notna_count s) / real (series_len s)) \<and>
             fl (real (notna_count s) / real (series_len s)) \<le> 1"
    by (intro fl_unit) simp_all
  then show "\<exists>c. completeness (profile_col cde_list col s) = Some c \<and> 0 \<le> c \<and> c \<le> 1"
    using assms np_round_unit[of "fl (real (notna_count s) / real (series_len s))"]
    by (simp add: profile_col_def Let_def)
  have "0 < notna_count s \<Longrightarrow> real (nunique s) / real (notna_count s) \<le> 1" using nunique_le[of s] by simp
  then have "0 < notna_count s \<Longrightarrow> 0 \<le> fl (real (nunique s) / real (notna_count s)) \<and>
             fl (real (nunique s) / real (notna_count s)) \<le> 1"
    by (intro fl_unit) simp_all
  then show "0 \<le> uniqueness (profile_col cde_list col s) \<and> uniqueness (profile_col cde_list col s) \<le> 1"
    using np_round_unit[of "fl (real (nunique s) / real (notna_count s))"]
    by (simp add: profile_col_def Let_def)
  show "notna_count s = 0 \<longrightarrow> uniqueness (profile_col cde_list col s) = 0"
    by (simp add: profile_col_def Let_def)
qed

text \<open>
  Without a list of fields the profiler marks no column: \<^verbatim>\<open>is_cde\<close> is membership
  in that list and nothing else.
\<close>

lemma no_fields_no_cde:
  "ProfilerTool_run e file_path [] = Inr summary \<Longrightarrow> p \<in> set (column_profiles summary) \<Longrightarrow> \<not> is_cde p"
  by (auto simp: ProfilerTool_run_def parse_cde_fields_def profile_frame_def Let_def
        map_filter_def profile_col_def split: sum.splits if_splits)

text \<open>
  Claim C2 on the table of customers, profiled with no field list: both columns
  match the vocabulary and neither is marked.
\<close>

theorem profiler_ignores_cde_patterns:
  "ProfilerTool_run customers_env ''data/customers.csv'' [] =
     Inr \<lparr>total_columns = 2, cde_columns = 0,
          overall_completeness = Some (7 / 8), cde_completeness = None,
          columns_with_nulls = 1, columns_with_duplicates = 0,
          column_profiles =
            [\<lparr>profile_column = ''customer_id'', is_cde = False,
               total_rows = 4, non_null_count = 4, null_count = 0,
               completeness = Some 1, unique_count = 4, uniqueness = 1,
               duplicate_count = 0\<rparr>,
             \<lparr>profile_column = ''email'', is_cde = False, total_rows = 4,
               non_null_count = 3, null_count = 1,
               completeness = Some (3 / 4), unique_count = 3, uniqueness = 1,
               duplicate_count = 0\<rparr>]\<rparr> \<and>
   matches_cde_pattern ''customer_id'' \<and> matches_cde_pattern ''email''"
proof -
  have r: "read_frame customers_env ''data/customers.csv'' = Inr customers"
    by (simp add: read_frame_def endswith_def customers_env_def no_files_def)
  have m: "matches_cde_pattern ''customer_id''" "matches_cde_pattern ''email''"
    by (simp_all add: matches_cde_pattern_def CDE_PATTERNS_def lower_def)
  have p: "profile_frame customers [] = Inr \<lparr>total_columns = 2, cde_columns = 0,
          overall_completeness = Some (7 / 8), cde_completeness = None,
          columns_with_nulls = 1, columns_with_duplicates = 0,
          column_profiles =
            [\<lparr>profile_column = ''customer_id'', is_cde = False,
               total_rows = 4, non_null_count = 4, null_count = 0,
               completeness = Some 1, unique_count = 4, uniqueness = 1,
               duplicate_count = 0\<rparr>,
             \<lparr>profile_column = ''email'', is_cde = False, total_rows = 4,
               non_null_count = 3, null_count = 1,
               completeness = Some (3 / 4), unique_count = 3, uniqueness = 1,
               duplicate_count = 0\<rparr>]\<rparr>"
    by (simp add: profile_frame_def customers_def df_columns_def df_get_def profile_col_def
          isna_count_def mean_completeness_def np_round_def fl_values round_half_even_def Let_def ustr_def)
  show ?thesis using r m p by (simp add: ProfilerTool_run_def parse_cde_fields_def)
qed

text \<open>
  Claim C6 on a file without records: the profiler succeeds and the completeness of
  every column is NaN, while the uniqueness is \<open>0\<close> by its guard. On a frame with at
  least one row both figures are within bounds (\<open>profile_col_bounds\<close>).
\<close>

theorem completeness_nan_without_rows:
  "ProfilerTool_run header_only_env ''customers.csv'' [] =
     Inr \<lparr>total_columns = 2, cde_columns = 0, overall_completeness = None,
          cde_completeness = None, columns_with_nulls = 0,
          columns_with_duplicates = 0,
          column_profiles =
            [\<lparr>profile_column = ''customer_id'', is_cde = False,
               total_rows = 0, non_null_count = 0, null_count = 0,
               completeness = None, unique_count = 0, uniqueness = 0,
               duplicate_count = 0\<rparr>,
             \<lparr>profile_column = ''email'', is_cde = False, total_rows = 0,
               non_null_count = 0, null_count = 0, completeness = None,
               unique_count = 0, uniqueness = 0, duplicate_count = 0\<rparr>]\<rparr>"
  by (simp add: ProfilerTool_run_def parse_cde_fields_def read_frame_def endswith_def
        header_only_env_def no_files_def profile_frame_def header_only_def df_columns_def
        df_get_def profile_col_def isna_count_def mean_completeness_def Let_def)

subsection \<open>Validator\<close>

text \<open>The shape of a successful validation.\<close>

lemma validate_InrD:
  assumes "validate e today df0 cde_rules = Inr r"
  obtains df date_found balance_found credit_found where
    "dob_check e today df0 = (df, date_found)"
    "balance_issues df = Inr balance_found"
    "credit_issues df = Inr credit_found"
    "issues r = email_issues df0 @ phone_issues e df0 @ date_found @ balance_found @ credit_found @
        concat (map (null_issue df) cde_rules) @ concat (map (unique_issue df) cde_rules)"
    "0 < len_df df * length (df_columns df)"
    "validity_score r =
       py_round (fl (1 - fl (of_nat (sum_list (map invalid_count (issues r))) /
                               of_nat (len_df df * length (df_columns df))))) 4"
proof -
  obtain df date_found where d: "dob_check e today df0 = (df, date_found)" by (cases "dob_check e today df0")
  from assms d obtain bf where b: "balance_issues df = Inr bf"
    by (cases "balance_issues df") (auto simp: validate_def and_then_def Let_def)
  from assms d b obtain cf where c: "credit_issues df = Inr cf"
    by (cases "credit_issues df") (auto simp: validate_def and_then_def Let_def)
  from assms d b c have z: "len_df df * length (df_columns df) \<noteq> 0"
    by (auto simp: validate_def and_then_def Let_def split: if_splits)
  from assms d b c z have r: "r = \<lparr>total_records = len_df df,
        total_issues = length (email_issues df0 @ phone_issues e df0 @ date_found @ bf @ cf @
          concat (map (null_issue df) cde_rules) @ concat (map (unique_issue df) cde_rules)),
        critical_issues = count_severity ''CRITICAL'' (email_issues df0 @ phone_issues e df0 @ date_found @ bf @ cf @
          concat (map (null_issue df) cde_rules) @ concat (map (unique_issue df) cde_rules)),
        high_issues = count_severity ''HIGH'' (email_issues df0 @ phone_issues e df0 @ date_found @ bf @ cf @
          concat (map (null_issue df) cde_rules) @ concat (map (unique_issue df) cde_rules)),
        medium_issues = count_severity ''MEDIUM'' (email_issues df0 @ phone_issues e df0 @ date_found @ bf @ cf @
          concat (map (null_issue df) cde_rules) @ concat (map (unique_issue df) cde_rules)),
        validity_score = py_round (fl (1 - fl (of_nat (sum_list (map invalid_count (email_issues df0 @ phone_issues e df0 @ date_found @ bf @ cf @
          concat (map (null_issue df) cde_rules) @ concat (map (unique_issue df) cde_rules)))) /
             of_nat (len_df df * length (df_columns df))))) 4,
        issues = email_issues df0 @ phone_issues e df0 @ date_found @ bf @ cf @
          concat (map (null_issue df) cde_rules) @ concat (map (unique_issue df) cde_rules)\<rparr>"
    by (simp add: validate_def and_then_def Let_def)
  show ?thesis
    by (rule that[OF d b c _ _ _]) (use z in \<open>simp_all add: r\<close>)
qed

lemma run_InrD:
  assumes "ValidatorTool_run e today file_path cde_config_path = Inr r"
  obtains df0 cde_rules where
    "read_frame e file_path = Inr df0"
    "load_cde_rules e cde_config_path = Inr cde_rules"
    "validate e today df0 cde_rules = Inr r"
  using assms by (auto simp: ValidatorTool_run_def split: sum.splits)

text \<open>Rounding and sign.\<close>

lemma round_half_even_neg_iff: "round_half_even y < 0 \<longleftrightarrow> y < - 1 / 2"
proof
  assume a: "round_half_even y < 0"
  show "y < - 1 / 2"
  proof (rule ccontr)
    assume "\<not> y < - 1 / 2"
    then have y: "- 1 / 2 \<le> y" by simp
    then have f: "- 1 \<le> \<lfloor>y\<rfloor>" by (simp add: le_floor_iff)
    show False
    proof (cases "\<lfloor>y\<rfloor> = - 1")
      case True
      then have "1 / 2 \<le> y - of_int \<lfloor>y\<rfloor>" using y by simp
      with True a show False by (auto simp: round_half_even_def Let_def split: if_splits)
    next
      case False
      with f have "0 \<le> \<lfloor>y\<rfloor>" by linarith
      then have "0 \<le> y" by (simp only: zero_le_floor)
      then have "0 \<le> round_half_even y" by (rule round_half_even_nonneg)
      with a show False by simp
    qed
  qed
next
  assume y: "y < - 1 / 2"
  then have f: "\<lfloor>y\<rfloor> \<le> - 1" by (simp add: floor_le_iff)
  show "round_half_even y < 0"
  proof (cases "\<lfloor>y\<rfloor> = - 1")
    case True
    then have "y - of_int \<lfloor>y\<rfloor> < 1 / 2" using y by simp
    with True show ?thesis by (simp add: round_half_even_def Let_def)
  next
    case False
    with f have "\<lfloor>y\<rfloor> + 1 < 0" by simp
    then show ?thesis by (auto simp: round_half_even_def Let_def)
  qed
qed

lemma py_round4_neg_iff: "py_round x 4 < 0 \<longleftrightarrow> x < - 1 / 20000"
proof -
  define k where "k = round_half_even (x * 10 ^ 4)"
  have "fl (of_int k / 10 ^ 4) < 0 \<longleftrightarrow> k < 0"
  proof
    assume a: "fl (of_int k / 10 ^ 4) < 0"
    show "k < 0"
    proof (rule ccontr)
      assume "\<not> k < 0"
      then have "0 \<le> of_int k / (10 ^ 4 :: real)" by simp
      then have "0 \<le> fl (of_int k / 10 ^ 4)" by (rule fl_nonneg)
      with a show False by simp
    qed
  next
    assume "k < 0" then show "fl (of_int k / 10 ^ 4) < 0" by (rule fl_neg_decimal)
  qed
  then have "py_round x 4 < 0 \<longleftrightarrow> round_half_even (x * 10 ^ 4) < 0"
    by (simp add: py_round_def k_def)
  also have "\<dots> \<longleftrightarrow> x * 10 ^ 4 < - 1 / 2" by (rule round_half_even_neg_iff)
  also have "\<dots> \<longleftrightarrow> x < - 1 / 20000" by auto
  finally show ?thesis .
qed

lemma py_round4_nonpos: "x \<le> 0 \<Longrightarrow> py_round x 4 \<le> 0"
proof -
  assume "x \<le> 0"
  then have "x * 10 ^ 4 \<le> of_int 0" by (simp add: mult_le_0_iff)
  then have "round_half_even (x * 10 ^ 4) \<le> 0" by (rule round_half_even_le)
  then have "of_int (round_half_even (x * 10 ^ 4)) / (10 ^ 4 :: real) \<le> 0"
    by (simp add: divide_le_0_iff)
  then show ?thesis unfolding py_round_def by (rule fl_nonpos)
qed

text \<open>
  The float64 values on the way to the scores of the examples, and two scores that
  the float arithmetic decides: with 7 violations in 160 cells the difference
  \<open>0.95625\<close> is a tie of the rounding to four decimals and the float64 lies above
  it; with 20001 violations in 20000 cells the float64 lies below \<open>-0.00005\<close>.
\<close>

lemma score_values:
  "fl (1 / 3) = 6004799503160661 / 18014398509481984"
  "fl (12009599006321323 / 18014398509481984) = 3002399751580331 / 4503599627370496"
  "fl (1 / 4) = 1 / 4"
  "fl (2 / 5) = 3602879701896397 / 9007199254740992"
  "fl (5404319552844595 / 9007199254740992) = 5404319552844595 / 9007199254740992"
  "fl (3 / 2) = 3 / 2"
  "fl (- (1 / 2)) = - (1 / 2)"
  by (subst fl_scaled[where k = 54], simp_all add: round_half_even_def,
      subst fl_scaled[where k = 53], simp_all add: round_half_even_def,
      subst fl_scaled[where k = 54], simp_all add: round_half_even_def,
      subst fl_scaled[where k = 54], simp_all add: round_half_even_def,
      subst fl_scaled[where k = 53], simp_all add: round_half_even_def,
      subst fl_scaled[where k = 52], simp_all add: round_half_even_def,
      subst fl_scaled[where k = 53], simp_all add: round_half_even_def)

lemma score_tie_above: "py_round (fl (1 - fl (7 / 160))) 4 = fl (9563 / 10000)"
proof -
  have a: "fl (7 / 160) = 6305039478318694 / 2 ^ 57"
    by (subst fl_scaled[where k = 57]) (simp_all add: round_half_even_def)
  have b: "fl (1 - 6305039478318694 / 2 ^ 57) = 8613134287346074 / 2 ^ 53"
    by (subst fl_scaled[where k = 53]) (simp_all add: round_half_even_def)
  show ?thesis unfolding a b py_round_def by (simp add: round_half_even_def)
qed

lemma score_below_zero:
  "py_round (fl (1 - fl (20001 / 20000))) 4 = fl (- 1 / 10000) \<and> fl (- 1 / 10000) < 0"
proof -
  have a: "fl (20001 / 20000) = 4503824807351865 / 2 ^ 52"
    by (subst fl_scaled[where k = 52]) (simp_all add: round_half_even_def)
  have b: "fl (1 - 4503824807351865 / 2 ^ 52) = - 225179981369 / 2 ^ 52"
    by (subst fl_scaled[where k = 67]) (simp_all add: round_half_even_def)
  have c: "fl (- 1 / 10000) < 0" using fl_neg_decimal[of "- 1"] by simp
  show ?thesis unfolding a b py_round_def using c by (simp add: round_half_even_def)
qed

text \<open>The date rule.\<close>

lemma df_get_None: "df_get df name = None \<longleftrightarrow> name \<notin> set (df_columns df)"
  by (simp add: df_get_def df_columns_def map_of_eq_None_iff)

lemma dob_check_absent:
  "''date_of_birth'' \<notin> set (df_columns df) \<Longrightarrow> dob_check e today df = (df, [])"
  using df_get_None[of df "''date_of_birth''"] by (simp add: dob_check_def)

lemma map_of_replace:
  "name \<noteq> n \<Longrightarrow> map_of (map (\<lambda>(c, old). if c = n then (c, s) else (c, old)) df) name = map_of df name"
  by (induction df) auto

lemma df_get_assign: "name \<noteq> n \<Longrightarrow> df_get (assign df n s) name = df_get df name"
  by (auto simp: df_get_def assign_def map_of_replace map_add_def split: option.splits)

lemma dob_check_keeps:
  assumes "dob_check e today df0 = (df, found)" "name \<noteq> ''dob_parsed''"
  shows "df_get df name = df_get df0 name"
  using assms by (auto simp: dob_check_def Let_def df_get_assign split: option.splits)

lemma in_dropna: "Some x \<in> set vs \<Longrightarrow> x \<in> set (dropna vs)"
  by (induction vs rule: dropna.induct) auto

lemma dob_check_clock:
  assumes "\<And>s ts. df_get df ''date_of_birth'' = Some s \<Longrightarrow> ts \<in> set (dropna (to_datetime e s)) \<Longrightarrow>
             (today < date_of ts) = (today' < date_of ts)"
  shows "dob_check e today df = dob_check e today' df"
proof (cases "df_get df ''date_of_birth''")
  case None
  then show ?thesis by (simp add: dob_check_def)
next
  case (Some s)
  have eq: "map (\<lambda>t. case t of None \<Rightarrow> False | Some ts \<Rightarrow> today < date_of ts) (to_datetime e s) =
        map (\<lambda>t. case t of None \<Rightarrow> False | Some ts \<Rightarrow> today' < date_of ts) (to_datetime e s)"
    using assms[OF Some] by (intro map_cong) (auto split: option.splits dest: in_dropna)
  show ?thesis unfolding dob_check_def Let_def Some option.simps eq by (rule refl)
qed

text \<open>Counting with masks.\<close>

lemma count_true_lt:
  "count_true (map (\<lambda>v. case v of None \<Rightarrow> False | Some x \<Rightarrow> x < k) vs) =
     length (filter (\<lambda>x. x < k) (dropna vs))"
  by (induction vs rule: dropna.induct) (auto simp: count_true_def)

lemma count_true_range:
  "count_true (map (\<lambda>(a, b). a \<or> b)
      (zip (map (\<lambda>v. case v of None \<Rightarrow> False | Some x \<Rightarrow> x < lo) vs)
           (map (\<lambda>v. case v of None \<Rightarrow> False | Some x \<Rightarrow> hi < x) vs))) =
     length (filter (\<lambda>x. x < lo \<or> hi < x) (dropna vs))"
  by (induction vs rule: dropna.induct) (auto simp: count_true_def)

lemma count_true_False: "count_true (map (\<lambda>v. False) vs) = 0"
  by (simp add: count_true_def)

lemma count_true_zip_False:
  "count_true (map (\<lambda>(a, b). a \<or> b) (zip (map (\<lambda>v. False) vs) (map (\<lambda>v. False) vs))) = 0"
  by (induction vs) (auto simp: count_true_def)

lemma balance_issues_counts:
  assumes "balance_issues df = Inr found"
  shows "map invalid_count found =
           (if 0 < present_negative df then [present_negative df] else []) \<and>
         (\<forall>i \<in> set found. rule i = ''negative_value'')"
proof (cases "df_get df ''account_balance''")
  case None
  with assms have "found = []" by (simp add: balance_issues_def)
  with None show ?thesis by (simp add: present_negative_def numeric_values_def)
next
  case (Some s)
  show ?thesis
  proof (cases s)
    case (Numeric vs)
    have n: "present_negative df = length (filter (\<lambda>x. x < 0) (dropna vs))"
      using Some Numeric by (simp add: present_negative_def numeric_values_def)
    from assms Some Numeric show ?thesis
      unfolding n by (cases "0 < length (filter (\<lambda>x. x < 0) (dropna vs))")
         (auto simp: balance_issues_def count_true_lt Let_def)
  next
    case (Object vs)
    have n: "present_negative df = 0"
      using Some Object by (simp add: present_negative_def numeric_values_def)
    from assms Some Object have "found = []"
      by (cases "dropna vs = []") (simp_all add: balance_issues_def count_true_False)
    with n show ?thesis by simp
  next
    case (Datetime vs)
    with Some assms show ?thesis by (simp add: balance_issues_def)
  qed
qed

lemma credit_issues_counts:
  assumes "credit_issues df = Inr found"
  shows "map invalid_count found =
           (if 0 < present_out_of_range df then [present_out_of_range df] else []) \<and>
         (\<forall>i \<in> set found. rule i = ''range_validation'')"
proof (cases "df_get df ''credit_score''")
  case None
  with assms have "found = []" by (simp add: credit_issues_def)
  with None show ?thesis by (simp add: present_out_of_range_def numeric_values_def)
next
  case (Some s)
  show ?thesis
  proof (cases s)
    case (Numeric vs)
    have n: "present_out_of_range df = length (filter (\<lambda>x. x < 300 \<or> 850 < x) (dropna vs))"
      using Some Numeric by (simp add: present_out_of_range_def numeric_values_def)
    from assms Some Numeric show ?thesis
      unfolding n by (cases "0 < length (filter (\<lambda>x. x < 300 \<or> 850 < x) (dropna vs))")
         (auto simp: credit_issues_def count_true_range Let_def)
  next
    case (Object vs)
    have n: "present_out_of_range df = 0"
      using Some Object by (simp add: present_out_of_range_def numeric_values_def)
    from assms Some Object have "found = []"
      by (cases "dropna vs = []") (simp_all add: credit_issues_def count_true_zip_False)
    with n show ?thesis by simp
  next
    case (Datetime vs)
    with Some assms show ?thesis by (simp add: credit_issues_def)
  qed
qed

text \<open>Samples: what a mask selects.\<close>

lemma select_text:
  "select (map (\<lambda>v. case v of None \<Rightarrow> False | Some x \<Rightarrow> \<not> m x) vs)
          (map (\<lambda>v. case v of None \<Rightarrow> NA | Some x \<Rightarrow> Str x) vs) =
     map Str (filter (\<lambda>x. \<not> m x) (dropna vs))"
  by (induction vs rule: dropna.induct) (auto simp: select_def)

lemma select_present:
  "select (map (\<lambda>v. v \<noteq> None) vs) (map (\<lambda>v. case v of None \<Rightarrow> NA | Some x \<Rightarrow> f x) vs) =
     map f (dropna vs)"
  by (induction vs rule: dropna.induct) (auto simp: select_def)

lemma select_invalid_format: "select (invalid_format m s) (cells s) = offending m s"
  by (cases s)
     (simp_all only: invalid_format.simps cells.simps offending.simps select_text select_present)

lemma select_where:
  "select (map (\<lambda>v. case v of None \<Rightarrow> False | Some x \<Rightarrow> P x) vs)
          (map (\<lambda>v. case v of None \<Rightarrow> NA | Some x \<Rightarrow> Num x) vs) =
     map Num (filter P (dropna vs))"
  by (induction vs rule: dropna.induct) (auto simp: select_def)

lemma select_range:
  "select (map (\<lambda>(a, b). a \<or> b)
             (zip (map (\<lambda>v. case v of None \<Rightarrow> False | Some x \<Rightarrow> x < lo) vs)
                  (map (\<lambda>v. case v of None \<Rightarrow> False | Some x \<Rightarrow> hi < x) vs)))
          (map (\<lambda>v. case v of None \<Rightarrow> NA | Some x \<Rightarrow> Num x) vs) =
     map Num (filter (\<lambda>x. x < lo \<or> hi < x) (dropna vs))"
  by (induction vs rule: dropna.induct) (auto simp: select_def)

lemma select_zip: "select (map P ts) xs = map snd (filter (\<lambda>(t, x). P t) (zip ts xs))"
proof (induction ts arbitrary: xs)
  case Nil then show ?case by (simp add: select_def)
next
  case (Cons t ts)
  then show ?case by (cases xs) (auto simp: select_def)
qed

lemma numeric_values_keeps:
  "dob_check e today df0 = (df, found) \<Longrightarrow> name \<noteq> ''dob_parsed'' \<Longrightarrow>
     numeric_values df name = numeric_values df0 name"
  by (simp add: numeric_values_def dob_check_keeps)

lemma email_issues_sample:
  "i \<in> set (email_issues df) \<Longrightarrow>
     rule i = ''format_validation'' \<and> field i = ''email'' \<and>
     (\<exists>s. df_get df ''email'' = Some s \<and>
          sample_invalid i = Some (take 3 (offending email_match s)))"
  by (cases "df_get df ''email''")
     (auto simp: email_issues_def Let_def select_invalid_format split: if_splits)

lemma phone_issues_sample:
  "i \<in> set (phone_issues e df) \<Longrightarrow>
     rule i = ''format_validation'' \<and> field i = ''phone'' \<and>
     (\<exists>s. df_get df ''phone'' = Some s \<and>
          sample_invalid i = Some (take 3 (offending (phone_match e) s)))"
  by (cases "df_get df ''phone''")
     (auto simp: phone_issues_def Let_def select_invalid_format split: if_splits)

lemma dob_check_sample:
  "dob_check e today df0 = (df, found) \<Longrightarrow> i \<in> set found \<Longrightarrow>
     rule i = ''future_date'' \<and>
     (\<exists>s. df_get df0 ''date_of_birth'' = Some s \<and>
          sample_invalid i = Some (map Str (take 3 (born_after e today s))))"
  by (cases "df_get df0 ''date_of_birth''")
     (auto simp: dob_check_def Let_def born_after_def select_zip split: if_splits)

lemma balance_issues_sample:
  assumes "balance_issues df = Inr found" "i \<in> set found"
  shows "rule i = ''negative_value'' \<and>
         sample_invalid i =
           Some (map Num (take 3 (filter (\<lambda>x. x < 0) (numeric_values df ''account_balance''))))"
proof (cases "df_get df ''account_balance''")
  case None
  with assms show ?thesis by (simp add: balance_issues_def)
next
  case (Some s)
  show ?thesis
  proof (cases s)
    case (Numeric vs)
    have n: "numeric_values df ''account_balance'' = dropna vs"
      using Some Numeric by (simp add: numeric_values_def)
    have "lt_scalar s 0 = Inr (map (\<lambda>v. case v of None \<Rightarrow> False | Some x \<Rightarrow> x < 0) vs)"
      using Numeric by simp
    with assms Some show ?thesis
      unfolding n Numeric
      by (auto simp: balance_issues_def Let_def select_where take_map split: if_splits)
  next
    case (Object vs)
    from assms Some Object have "found = []"
      by (cases "dropna vs = []") (simp_all add: balance_issues_def count_true_False)
    with assms show ?thesis by simp
  next
    case (Datetime vs)
    with Some assms show ?thesis by (simp add: balance_issues_def)
  qed
qed

lemma credit_issues_sample:
  assumes "credit_issues df = Inr found" "i \<in> set found"
  shows "rule i = ''range_validation'' \<and>
         sample_invalid i =
           Some (map Num (take 3 (filter (\<lambda>x. x < 300 \<or> 850 < x)
                                    (numeric_values df ''credit_score''))))"
proof (cases "df_get df ''credit_score''")
  case None
  with assms show ?thesis by (simp add: credit_issues_def)
next
  case (Some s)
  show ?thesis
  proof (cases s)
    case (Numeric vs)
    have n: "numeric_values df ''credit_score'' = dropna vs"
      using Some Numeric by (simp add: numeric_values_def)
    from assms Some show ?thesis
      unfolding n Numeric
      by (auto simp: credit_issues_def Let_def select_range take_map split: if_splits)
  next
    case (Object vs)
    from assms Some Object have "found = []"
      by (cases "dropna vs = []") (simp_all add: credit_issues_def count_true_zip_False)
    with assms show ?thesis by simp
  next
    case (Datetime vs)
    with Some assms show ?thesis by (simp add: credit_issues_def)
  qed
qed

lemma null_issue_sample:
  "i \<in> set (null_issue df x) \<Longrightarrow> rule i = ''cde_not_nullable'' \<and> sample_invalid i = None"
  by (cases x) (auto simp: null_issue_def Let_def split: option.splits if_splits)

lemma unique_issue_sample:
  "i \<in> set (unique_issue df x) \<Longrightarrow> rule i = ''cde_uniqueness'' \<and> sample_invalid i = None"
  by (cases x) (auto simp: unique_issue_def Let_def split: option.splits if_splits)

text \<open>
  Claim C4, as the code has it. An issue of one of the five fixed rules carries a
  sample: the first three of the offending values of its column in the loaded frame,
  in row order. For the two format rules these are the present cells that fail the
  pattern; for the date rule the texts of the cells whose parsed date is after the
  day of the run; for the balance rule the present balances below zero; for the
  score rule the present scores below 300 or above 850. An issue of
  \<^verbatim>\<open>cde_not_nullable\<close> or of \<^verbatim>\<open>cde_uniqueness\<close> carries no sample. There is no
  other rule, and no sample has more than three values.
\<close>

theorem sample_invalid_by_rule:
  assumes "ValidatorTool_run e today file_path cde_config_path = Inr r"
      and "read_frame e file_path = Inr df0"
      and "i \<in> set (issues r)"
  shows "((rule i = ''format_validation'' \<and> field i = ''email'' \<and>
           (\<exists>s. df_get df0 ''email'' = Some s \<and>
                sample_invalid i = Some (take 3 (offending email_match s)))) \<or>
          (rule i = ''format_validation'' \<and> field i = ''phone'' \<and>
           (\<exists>s. df_get df0 ''phone'' = Some s \<and>
                sample_invalid i = Some (take 3 (offending (phone_match e) s)))) \<or>
          (rule i = ''future_date'' \<and>
           (\<exists>s. df_get df0 ''date_of_birth'' = Some s \<and>
                sample_invalid i = Some (map Str (take 3 (born_after e today s))))) \<or>
          (rule i = ''negative_value'' \<and>
           sample_invalid i =
             Some (map Num (take 3 (filter (\<lambda>x. x < 0) (numeric_values df0 ''account_balance''))))) \<or>
          (rule i = ''range_validation'' \<and>
           sample_invalid i =
             Some (map Num (take 3 (filter (\<lambda>x. x < 300 \<or> 850 < x)
                                      (numeric_values df0 ''credit_score''))))) \<or>
          (rule i \<in> {''cde_not_nullable'', ''cde_uniqueness''} \<and> sample_invalid i = None)) \<and>
         (\<forall>xs. sample_invalid i = Some xs \<longrightarrow> length xs \<le> 3)"
proof -
  from assms(1,2) obtain cde_rules where v: "validate e today df0 cde_rules = Inr r"
    by (auto elim!: run_InrD)
  from v obtain df date_found balance_found credit_found where
    d: "dob_check e today df0 = (df, date_found)" and
    b: "balance_issues df = Inr balance_found" and
    c: "credit_issues df = Inr credit_found" and
    i: "issues r = email_issues df0 @ phone_issues e df0 @ date_found @ balance_found @ credit_found @
        concat (map (null_issue df) cde_rules) @ concat (map (unique_issue df) cde_rules)"
    by (rule validate_InrD)
  have kb: "numeric_values df ''account_balance'' = numeric_values df0 ''account_balance''"
    using d by (rule numeric_values_keeps) simp
  have kc: "numeric_values df ''credit_score'' = numeric_values df0 ''credit_score''"
    using d by (rule numeric_values_keeps) simp
  from assms(3) i consider
      "i \<in> set (email_issues df0)" | "i \<in> set (phone_issues e df0)" | "i \<in> set date_found"
    | "i \<in> set balance_found" | "i \<in> set credit_found"
    | x where "i \<in> set (null_issue df x)" | x where "i \<in> set (unique_issue df x)"
    by auto
  then have rules:
    "(rule i = ''format_validation'' \<and> field i = ''email'' \<and>
       (\<exists>s. df_get df0 ''email'' = Some s \<and>
            sample_invalid i = Some (take 3 (offending email_match s)))) \<or>
     (rule i = ''format_validation'' \<and> field i = ''phone'' \<and>
       (\<exists>s. df_get df0 ''phone'' = Some s \<and>
            sample_invalid i = Some (take 3 (offending (phone_match e) s)))) \<or>
     (rule i = ''future_date'' \<and>
       (\<exists>s. df_get df0 ''date_of_birth'' = Some s \<and>
            sample_invalid i = Some (map Str (take 3 (born_after e today s))))) \<or>
     (rule i = ''negative_value'' \<and>
       sample_invalid i =
         Some (map Num (take 3 (filter (\<lambda>x. x < 0) (numeric_values df0 ''account_balance''))))) \<or>
     (rule i = ''range_validation'' \<and>
       sample_invalid i =
         Some (map Num (take 3 (filter (\<lambda>x. x < 300 \<or> 850 < x)
                                  (numeric_values df0 ''credit_score''))))) \<or>
     (rule i \<in> {''cde_not_nullable'', ''cde_uniqueness''} \<and> sample_invalid i = None)"
  proof cases
    case 1 then show ?thesis using email_issues_sample by blast
  next
    case 2 then show ?thesis using phone_issues_sample by blast
  next
    case 3 then show ?thesis using dob_check_sample[OF d] by blast
  next
    case 4 then show ?thesis using balance_issues_sample[OF b] unfolding kb by blast
  next
    case 5 then show ?thesis using credit_issues_sample[OF c] unfolding kc by blast
  next
    case 6 then show ?thesis using null_issue_sample by blast
  next
    case 7 then show ?thesis using unique_issue_sample by blast
  qed
  then have "\<forall>xs. sample_invalid i = Some xs \<longrightarrow> length xs \<le> 3" by auto
  with rules show ?thesis by (rule conjI)
qed

lemmas run_defs =
  ValidatorTool_run_def read_frame_def endswith_def load_cde_rules_def build_cde_rules_def
  validate_def and_then_def email_issues_def phone_issues_def dob_check_def
  balance_issues_def credit_issues_def null_issue_def unique_issue_def rule_flag_def
  df_get_def df_columns_def count_true_def select_def count_severity_def
  isna_count_def dup_count_def assign_def date_of_def
  py_round_def round_half_even_def Let_def str_nat.simps no_files_def ustr_def
  fl_zero fl_values score_values

lemmas match_defs =
  email_match_def phone_match_def before_final_newline_def is_local_def is_label_def
  is_tail_def is_alnum_def

lemma thirds_run: "ValidatorTool_run thirds_env 20760 ''emails.csv'' [] = Inr thirds_result"
  by (simp add: run_defs match_defs thirds_env_def thirds_def thirds_result_def)

lemma births_run: "ValidatorTool_run births_env 20760 ''births.csv'' [] = Inr births_result"
  by (simp add: run_defs births_env_def births_def births_result_def known_dates_def)

lemma births_run_later: "ValidatorTool_run births_env 20762 ''births.csv'' [] = Inr no_issues_result"
  by (simp add: run_defs births_env_def births_def no_issues_result_def known_dates_def)

lemma audit_run: "ValidatorTool_run audit_env 20760 ''customers.csv'' ''cde.json'' = Inr audit_result"
  by (simp add: run_defs match_defs audit_env_def customers_def sample_config_def audit_result_def)

lemma ledger_run: "ValidatorTool_run ledger_env 20760 ''ledger.csv'' [] = Inr ledger_result"
  by (simp add: run_defs ledger_env_def ledger_def ledger_result_def)

lemma dupes_run: "ValidatorTool_run dupes_env 20760 ''emails.csv'' ''cde.json'' = Inr dupes_result"
  by (simp add: run_defs match_defs dupes_env_def dupes_def dupes_result_def)

lemma filter_rule_none:
  "\<forall>i \<in> set xs. rule i = a \<Longrightarrow> a \<noteq> b \<Longrightarrow> filter (\<lambda>i. rule i = b) xs = []"
  by (auto simp: filter_empty_conv)

lemma filter_rule_all:
  "\<forall>i \<in> set xs. rule i = b \<Longrightarrow> filter (\<lambda>i. rule i = b) xs = xs"
  by (simp add: filter_id_conv)

lemma present_negative_keeps:
  "dob_check e today df0 = (df, found) \<Longrightarrow> present_negative df = present_negative df0"
  by (simp add: present_negative_def numeric_values_def dob_check_keeps)

lemma present_out_of_range_keeps:
  "dob_check e today df0 = (df, found) \<Longrightarrow> present_out_of_range df = present_out_of_range df0"
  by (simp add: present_out_of_range_def numeric_values_def dob_check_keeps)

text \<open>
  Claim C10. In a successful run the rule \<^verbatim>\<open>negative_value\<close> has at most one issue
  and its count is the number of present balances below zero; the rule
  \<^verbatim>\<open>range_validation\<close> has at most one issue and its count is the number of
  present scores below 300 or above 850. A missing cell is in neither count.
\<close>

theorem missing_values_not_counted:
  assumes "ValidatorTool_run e today file_path cde_config_path = Inr r"
      and "read_frame e file_path = Inr df0"
  shows "map invalid_count (filter (\<lambda>i. rule i = ''negative_value'') (issues r)) =
           (if 0 < present_negative df0 then [present_negative df0] else []) \<and>
         map invalid_count (filter (\<lambda>i. rule i = ''range_validation'') (issues r)) =
           (if 0 < present_out_of_range df0 then [present_out_of_range df0] else [])"
proof -
  from assms obtain cde_rules where v: "validate e today df0 cde_rules = Inr r"
    by (auto elim!: run_InrD)
  from v obtain df date_found balance_found credit_found where
    d: "dob_check e today df0 = (df, date_found)" and
    b: "balance_issues df = Inr balance_found" and
    c: "credit_issues df = Inr credit_found" and
    i: "issues r = email_issues df0 @ phone_issues e df0 @ date_found @ balance_found @ credit_found @
        concat (map (null_issue df) cde_rules) @ concat (map (unique_issue df) cde_rules)"
    by (rule validate_InrD)
  have em: "\<forall>i \<in> set (email_issues df0). rule i = ''format_validation''"
    using email_issues_sample by blast
  have ph: "\<forall>i \<in> set (phone_issues e df0). rule i = ''format_validation''"
    using phone_issues_sample by blast
  have da: "\<forall>i \<in> set date_found. rule i = ''future_date''"
    using dob_check_sample[OF d] by blast
  have nu: "\<forall>i \<in> set (concat (map (null_issue df) cde_rules)). rule i = ''cde_not_nullable''"
    using null_issue_sample by fastforce
  have un: "\<forall>i \<in> set (concat (map (unique_issue df) cde_rules)). rule i = ''cde_uniqueness''"
    using unique_issue_sample by fastforce
  note bc = balance_issues_counts[OF b]
  note cc = credit_issues_counts[OF c]
  have ba: "\<forall>i \<in> set balance_found. rule i = ''negative_value''" using bc by simp
  have cr: "\<forall>i \<in> set credit_found. rule i = ''range_validation''" using cc by simp
  have neg: "filter (\<lambda>i. rule i = ''negative_value'') (issues r) = balance_found"
    unfolding i filter_append
    by (simp add: filter_rule_none[OF em] filter_rule_none[OF ph] filter_rule_none[OF da]
          filter_rule_none[OF cr] filter_rule_none[OF nu] filter_rule_none[OF un]
          filter_rule_all[OF ba])
  have rng: "filter (\<lambda>i. rule i = ''range_validation'') (issues r) = credit_found"
    unfolding i filter_append
    by (simp add: filter_rule_none[OF em] filter_rule_none[OF ph] filter_rule_none[OF da]
          filter_rule_none[OF ba] filter_rule_none[OF nu] filter_rule_none[OF un]
          filter_rule_all[OF cr])
  show ?thesis
    unfolding neg rng using bc cc
    by (simp add: present_negative_keeps[OF d] present_out_of_range_keeps[OF d])
qed

lemma ledger_read: "read_frame ledger_env ''ledger.csv'' = Inr ledger"
  by (simp add: read_frame_def endswith_def ledger_env_def no_files_def)

lemma ledger_numeric:
  "numeric_values ledger ''account_balance'' = [120, - 35, 0, - 1]"
  "numeric_values ledger ''credit_score'' = [299, 300, 850, 851]"
  by (simp_all add: numeric_values_def df_get_def ledger_def)

theorem missing_values_not_counted_witness:
  "ValidatorTool_run ledger_env 20760 ''ledger.csv'' [] = Inr ledger_result \<and>
   read_frame ledger_env ''ledger.csv'' = Inr ledger \<and>
   map invalid_count (filter (\<lambda>i. rule i = ''negative_value'') (issues ledger_result)) = [2] \<and>
   map invalid_count (filter (\<lambda>i. rule i = ''range_validation'') (issues ledger_result)) = [2] \<and>
   present_negative ledger = 2 \<and> present_out_of_range ledger = 2"
proof -
  have n: "present_negative ledger = 2" "present_out_of_range ledger = 2"
    by (simp_all add: present_negative_def present_out_of_range_def ledger_numeric)
  show ?thesis
    using missing_values_not_counted[OF ledger_run ledger_read] ledger_run ledger_read n
    by simp
qed

text \<open>
  Claim C1, as the code has it. On a frame without a column \<^verbatim>\<open>date_of_birth\<close> the
  score of a successful run is the specification's formula evaluated in float64
  (the quotient of the two integers and the difference from one, each the nearest
  float64) and then rounded to four decimals by \<^verbatim>\<open>round\<close>; the frame then has at
  least one cell. It is not clamped: it is negative exactly when the float64
  difference is below \<open>-0.00005\<close>, and at most zero whenever the violations
  outnumber the cells.
\<close>

theorem validity_score_rounded:
  assumes "ValidatorTool_run e today file_path cde_config_path = Inr r"
      and "read_frame e file_path = Inr df"
      and "''date_of_birth'' \<notin> set (df_columns df)"
  shows "0 < len_df df * length (df_columns df) \<and>
         validity_score r = py_round (float_validity_score df (issues r)) 4 \<and>
         (validity_score r < 0 \<longleftrightarrow> float_validity_score df (issues r) < - 1 / 20000) \<and>
         (len_df df * length (df_columns df) < sum_list (map invalid_count (issues r)) \<longrightarrow>
            validity_score r \<le> 0)"
proof -
  from assms(1,2) obtain cde_rules where v: "validate e today df cde_rules = Inr r"
    by (auto elim!: run_InrD)
  from v obtain df' date_found where
    d: "dob_check e today df = (df', date_found)" and
    pos: "0 < len_df df' * length (df_columns df')" and
    sc: "validity_score r =
       py_round (fl (1 - fl (of_nat (sum_list (map invalid_count (issues r))) /
                               of_nat (len_df df' * length (df_columns df'))))) 4"
    by (rule validate_InrD)
  from d assms(3) have same: "df' = df" by (simp add: dob_check_absent)
  have score: "validity_score r = py_round (float_validity_score df (issues r)) 4"
    using sc unfolding same float_validity_score_def .
  have le: "validity_score r \<le> 0"
    if "len_df df * length (df_columns df) < sum_list (map invalid_count (issues r))"
  proof -
    from that have "real (len_df df * length (df_columns df)) < real (sum_list (map invalid_count (issues r)))"
      by (simp only: of_nat_less_iff)
    with pos have "1 \<le> real (sum_list (map invalid_count (issues r))) / real (len_df df * length (df_columns df))"
      unfolding same by (simp add: le_divide_eq)
    then have "1 \<le> fl (real (sum_list (map invalid_count (issues r))) / real (len_df df * length (df_columns df)))"
      by (rule fl_ge_one)
    then have "float_validity_score df (issues r) \<le> 0"
      unfolding float_validity_score_def by (intro fl_nonpos) simp
    then show ?thesis unfolding score by (rule py_round4_nonpos)
  qed
  show ?thesis using pos score le by (simp add: same py_round4_neg_iff)
qed

lemma dupes_read: "read_frame dupes_env ''emails.csv'' = Inr dupes"
  by (simp add: read_frame_def endswith_def dupes_env_def no_files_def)

theorem validity_score_rounded_witness:
  "ValidatorTool_run dupes_env 20760 ''emails.csv'' ''cde.json'' = Inr dupes_result \<and>
   read_frame dupes_env ''emails.csv'' = Inr dupes \<and>
   ''date_of_birth'' \<notin> set (df_columns dupes) \<and>
   float_validity_score dupes (issues dupes_result) = - 1 / 2 \<and>
   validity_score dupes_result = py_round (- 1 / 2) 4 \<and>
   validity_score dupes_result < 0"
proof -
  have c: "''date_of_birth'' \<notin> set (df_columns dupes)"
    by (simp add: df_columns_def dupes_def)
  have s: "float_validity_score dupes (issues dupes_result) = - 1 / 2"
    by (simp add: float_validity_score_def dupes_def dupes_result_def df_columns_def
          score_values)
  show ?thesis
    using validity_score_rounded[OF dupes_run dupes_read c] dupes_run dupes_read c s
    by simp
qed

text \<open>
  The claim as stated fails twice. One malformed address among three rows of one
  column scores the float64 nearest to \<open>0.6667\<close>, not \<open>2/3\<close>. With a column
  \<^verbatim>\<open>date_of_birth\<close> the date rule adds the column \<^verbatim>\<open>dob_parsed\<close> before the
  columns are counted: one future date among two rows of one loaded column scores
  \<open>1 - 1/4\<close>, not \<open>1 - 1/2\<close>.
\<close>

theorem validity_score_counterexample:
  "ValidatorTool_run thirds_env 20760 ''emails.csv'' [] = Inr thirds_result \<and>
   validity_score thirds_result = 6005099743135819 / 9007199254740992 \<and>
   spec_validity_score thirds (issues thirds_result) = 2 / 3 \<and>
   ValidatorTool_run births_env 20760 ''births.csv'' [] = Inr births_result \<and>
   validity_score births_result = 3 / 4 \<and>
   spec_validity_score births (issues births_result) = 1 / 2"
proof -
  have f: "fl (6667 / 10000) = 6005099743135819 / 9007199254740992"
    by (subst fl_scaled[where k = 53]) (simp_all add: round_half_even_def)
  show ?thesis
    by (simp add: thirds_run births_run)
       (simp add: spec_validity_score_def thirds_def births_def thirds_result_def
          births_result_def df_columns_def f)
qed

text \<open>
  Claim C3, as the code has it. The validator reads the clock. Two runs in the same
  environment return the same result whenever no parsed birth date lies after the
  date of one run and not after the date of the other; in particular on the same day.
  The profiler and the anomaly detector take no clock: they are functions of the
  environment and their arguments.
\<close>

theorem validator_clock_independence:
  assumes "\<forall>df s ts. read_frame e file_path = Inr df \<longrightarrow>
             df_get df ''date_of_birth'' = Some s \<longrightarrow>
             ts \<in> set (dropna (to_datetime e s)) \<longrightarrow>
             (today < date_of ts) = (today' < date_of ts)"
  shows "ValidatorTool_run e today file_path cde_config_path =
         ValidatorTool_run e today' file_path cde_config_path"
proof (cases "read_frame e file_path")
  case (Inl ex)
  then show ?thesis by (simp add: ValidatorTool_run_def)
next
  case (Inr df)
  have "dob_check e today df = dob_check e today' df"
    using assms Inr by (intro dob_check_clock) blast
  then have v: "validate e today df = validate e today' df"
    by (intro ext) (simp add: validate_def)
  show ?thesis by (simp add: ValidatorTool_run_def Inr v cong: sum.case_cong)
qed

theorem validator_clock_independence_witness:
  "ValidatorTool_run births_env 20762 ''births.csv'' [] =
   ValidatorTool_run births_env 20763 ''births.csv'' [] \<and>
   ValidatorTool_run births_env 20763 ''births.csv'' [] = Inr no_issues_result"
proof -
  have h: "\<forall>df s ts. read_frame births_env ''births.csv'' = Inr df \<longrightarrow>
             df_get df ''date_of_birth'' = Some s \<longrightarrow>
             ts \<in> set (dropna (to_datetime births_env s)) \<longrightarrow>
             (20762 < date_of ts) = (20763 < date_of ts)"
    by (auto simp: read_frame_def endswith_def births_env_def no_files_def births_def
          df_get_def known_dates_def date_of_def)
  show ?thesis
    using validator_clock_independence[OF h, of "[]"] births_run_later by simp
qed

text \<open>
  Two runs on the same file on 3 and on 5 November 2026: the first reports the birth
  date of 4 November as a future date, the second reports nothing.
\<close>

theorem validator_clock_counterexample:
  "ValidatorTool_run births_env 20760 ''births.csv'' [] = Inr births_result \<and>
   ValidatorTool_run births_env 20762 ''births.csv'' [] = Inr no_issues_result \<and>
   births_result \<noteq> no_issues_result"
  by (simp add: births_run births_run_later births_result_def no_issues_result_def)

lemma audit_read: "read_frame audit_env ''customers.csv'' = Inr customers"
  by (simp add: read_frame_def endswith_def audit_env_def no_files_def)

theorem sample_invalid_by_rule_witness:
  "ValidatorTool_run audit_env 20760 ''customers.csv'' ''cde.json'' = Inr audit_result \<and>
   read_frame audit_env ''customers.csv'' = Inr customers \<and>
   map rule (issues audit_result) = [''format_validation'', ''cde_not_nullable''] \<and>
   map sample_invalid (issues audit_result) = [Some [Str (ustr ''not-an-email'')], None] \<and>
   (\<exists>s. df_get customers ''email'' = Some s \<and>
        take 3 (offending email_match s) = [Str (ustr ''not-an-email'')])"
proof -
  have "sample_invalid (issues audit_result ! 1) = None"
    using sample_invalid_by_rule[OF audit_run audit_read, of "issues audit_result ! 1"]
    by (simp add: audit_result_def)
  moreover have "\<exists>s. df_get customers ''email'' = Some s \<and>
      sample_invalid (issues audit_result ! 0) = Some (take 3 (offending email_match s))"
    using sample_invalid_by_rule[OF audit_run audit_read, of "issues audit_result ! 0"]
    by (simp add: audit_result_def)
  ultimately show ?thesis using audit_run audit_read by (auto simp: audit_result_def)
qed

text \<open>
  The issue of the rule \<^verbatim>\<open>cde_not_nullable\<close> on the table of customers has no
  sample.
\<close>

theorem sample_invalid_counterexample:
  "ValidatorTool_run audit_env 20760 ''customers.csv'' ''cde.json'' = Inr audit_result \<and>
   map sample_invalid (issues audit_result) = [Some [Str (ustr ''not-an-email'')], None]"
  by (simp add: audit_run) (simp add: audit_result_def)

end
